theory Spec2Isabelle
  imports Complex_Main
begin

section \<open>Numbers and values of the platform\<close>

text \<open>
  A JavaScript number is an IEEE-754 binary64 value: \<open>NaN\<close>, an infinity, the negative
  zero, or a finite value (\<open>Fin 0\<close> is the positive zero). The finite values are
  carried as the real numbers they denote.
\<close>

datatype js_number = NaN | PosInf | NegInf | NegZero | Fin real

text \<open>A value as \<open>JSON.parse\<close> builds it, or \<open>undefined\<close>. An object is the list of its
  own properties, with distinct names.\<close>

datatype json =
    JUndefined | JNull | JBool bool | JNumber js_number | JString string
  | JArray "json list" | JObject "(string \<times> json) list"

text \<open>
  What the controllers take from the platform and what no source of the repository
  defines: the arithmetic of binary64 with its rounding (\<open>+\<close>, \<open>-\<close>, \<open>*\<close>, \<open>/\<close>,
  \<open>**\<close>), the functions and the constant of \<open>Math\<close>, which ECMAScript leaves to the
  implementation to approximate, and the conversion of a string or of an object to a
  number. They are parameters of the model: a theorem below whose platform is a
  variable holds for every platform, binary64 as V8 computes it included. Nothing is
  assumed of the operations; in particular the distance they yield may be \<open>NaN\<close>.
\<close>

record platform =
  num_add :: "js_number \<Rightarrow> js_number \<Rightarrow> js_number"
  num_sub :: "js_number \<Rightarrow> js_number \<Rightarrow> js_number"
  num_mul :: "js_number \<Rightarrow> js_number \<Rightarrow> js_number"
  num_div :: "js_number \<Rightarrow> js_number \<Rightarrow> js_number"
  num_pow :: "js_number \<Rightarrow> js_number \<Rightarrow> js_number"
  math_PI :: js_number
  math_sin :: "js_number \<Rightarrow> js_number"
  math_cos :: "js_number \<Rightarrow> js_number"
  math_sqrt :: "js_number \<Rightarrow> js_number"
  math_atan2 :: "js_number \<Rightarrow> js_number \<Rightarrow> js_number"
  stringToNumber :: "string \<Rightarrow> js_number"
  objectToNumber :: "json \<Rightarrow> js_number"

text \<open>\<open>ToNumber\<close>, applied by the arithmetic operators to an operand.\<close>

definition toNumber :: "platform \<Rightarrow> json \<Rightarrow> js_number" where
  "toNumber pf v =
     (case v of
        JUndefined \<Rightarrow> NaN
      | JNull \<Rightarrow> Fin 0
      | JBool b \<Rightarrow> (if b then Fin 1 else Fin 0)
      | JNumber x \<Rightarrow> x
      | JString s \<Rightarrow> stringToNumber pf s
      | JArray xs \<Rightarrow> objectToNumber pf v
      | JObject props \<Rightarrow> objectToNumber pf v)"

text \<open>
  The comparison \<open>x < y\<close> of two numbers. It is exact: it is false when an operand is
  \<open>NaN\<close>, and the two zeros are equal.
\<close>

definition finiteValue :: "js_number \<Rightarrow> real" where
  "finiteValue x = (case x of Fin r \<Rightarrow> r | _ \<Rightarrow> 0)"

definition numberLess :: "js_number \<Rightarrow> js_number \<Rightarrow> bool" where
  "numberLess x y =
     (if x = NaN \<or> y = NaN then False
      else if x = PosInf \<or> y = NegInf then False
      else if x = NegInf \<or> y = PosInf then True
      else finiteValue x < finiteValue y)"


section \<open>Great-circle distance (parent controller, \<open>calculateDistance\<close>)\<close>

text \<open>\<open>deg * (Math.PI / 180)\<close>.\<close>

definition deg2rad :: "platform \<Rightarrow> json \<Rightarrow> js_number" where
  "deg2rad pf deg = num_mul pf (toNumber pf deg) (num_div pf (math_PI pf) (Fin 180))"

text \<open>
  \<open>const [lon1, lat1] = coords1\<close> reads the first two elements of the array and
  ignores the rest; a missing element is \<open>undefined\<close>.
\<close>

definition element :: "json list \<Rightarrow> nat \<Rightarrow> json" where
  "element xs i = (if i < length xs then xs ! i else JUndefined)"

definition calculateDistance :: "platform \<Rightarrow> json list \<Rightarrow> json list \<Rightarrow> js_number" where
  "calculateDistance pf coords1 coords2 =
     (let lon1 = element coords1 0; lat1 = element coords1 1;
          lon2 = element coords2 0; lat2 = element coords2 1;
          R = Fin 6371;
          dLat = deg2rad pf (JNumber (num_sub pf (toNumber pf lat2) (toNumber pf lat1)));
          dLon = deg2rad pf (JNumber (num_sub pf (toNumber pf lon2) (toNumber pf lon1)));
          a = num_add pf
                (num_pow pf (math_sin pf (num_div pf dLat (Fin 2))) (Fin 2))
                (num_mul pf
                   (num_mul pf (math_cos pf (deg2rad pf lat1)) (math_cos pf (deg2rad pf lat2)))
                   (num_pow pf (math_sin pf (num_div pf dLon (Fin 2))) (Fin 2)));
          c = num_mul pf (Fin 2)
                (math_atan2 pf (math_sqrt pf a) (math_sqrt pf (num_sub pf (Fin 1) a)))
      in num_mul pf R c)"


section \<open>Documents and collections\<close>

text \<open>
  An \<open>ObjectId\<close> is written as 24 hexadecimal digits; two spellings that differ
  only in the case of the digits are the same id, so a cast id is kept in lower case.
  A string that does not cast makes Mongoose raise a \<open>CastError\<close>. (Strings of
  12 characters, which some versions of the driver read as the 12 bytes of an id, are
  taken as not valid.)
\<close>

type_synonym oid = string

definition isHexDigit :: "char \<Rightarrow> bool" where
  "isHexDigit c = (c \<in> set ''0123456789abcdefABCDEF'')"

definition lowerHex :: "char \<Rightarrow> char" where
  "lowerHex c =
     (if c = CHR ''A'' then CHR ''a'' else if c = CHR ''B'' then CHR ''b''
      else if c = CHR ''C'' then CHR ''c'' else if c = CHR ''D'' then CHR ''d''
      else if c = CHR ''E'' then CHR ''e'' else if c = CHR ''F'' then CHR ''f''
      else c)"

definition isValid :: "string \<Rightarrow> bool" where
  "isValid s = (length s = 24 \<and> list_all isHexDigit s)"

definition castObjectId :: "string \<Rightarrow> oid option" where
  "castObjectId s = (if isValid s then Some (map lowerHex s) else None)"

datatype role = Admin | Student | Staff | Parent

datatype status = Pending | Approved | Rejected

text \<open>
  The \<open>reviewSchema\<close> sub-document of the leave model. Its \<open>remarks\<close> default
  to the empty string.
\<close>

record review =
  r_status :: status
  r_remarks :: string
  reviewedBy :: "oid option"
  reviewedAt :: "nat option"

text \<open>
  The leave document. The schema's other paths (the dates, the reason, the leave type
  and the contact props) are neither read nor written by the operations below.

  \<open>leaveLocation\<close> is a nested path of the schema with the paths \<open>type\<close> and
  \<open>coordinates\<close>, the latter an array of numbers. What is stored is that array; an
  erased or missing location is the empty array.
\<close>

record leave =
  leave_id :: oid
  studentId :: oid
  status :: status
  parentReview :: "review option"
  staffReview :: "review option"
  leaveLocation :: "js_number list"

record user =
  user_id :: oid
  role :: role
  parentId :: "oid option"
  children :: "oid list"

record complaint =
  complaint_id :: oid
  owner :: oid

record db =
  users :: "user list"
  leaves :: "leave list"
  complaints :: "complaint list"

datatype payload = NoData | LeaveData leave | UserData "user option"

record response =
  code :: nat
  message :: string
  data :: payload

definition reply :: "nat \<Rightarrow> string \<Rightarrow> response" where
  "reply c m = \<lparr>code = c, message = m, data = NoData\<rparr>"

text \<open>
  A storage call may throw (the \<open>catch\<close> blocks of the controllers answer 500).
  The calls are named, and an operation is run against an oracle that says which of
  them throw.
\<close>

datatype io =
    FindParent | FindLeave | SaveReview | SaveRedaction
  | FindLeaveById | UpdateLeave
  | FindStudent | FindParentUser | WriteStudent | WriteParent | Commit | FetchUpdated
  | AbortInCatch
  | DeleteLeaves | DeleteComplaints | HookDeleteLeaves | HookDeleteComplaints | DeleteUser

definition no_faults :: "io \<Rightarrow> bool" where
  "no_faults step = False"


section \<open>Parent review (\<open>reviewLeave\<close>)\<close>

record review_request =
  rq_leaveId :: string
  rq_action :: string
  rq_remarks :: "string option"
  rq_currentParentLocation :: json
  rq_user :: "string option"

definition unauthorized :: response where
  "unauthorized = reply 401 ''Unauthorized''"

definition invalid_action :: response where
  "invalid_action = reply 400 ''Invalid action''"

definition parent_not_found :: response where
  "parent_not_found = reply 404 ''Parent not found''"

definition leave_not_found_or_unauthorized :: response where
  "leave_not_found_or_unauthorized = reply 404 ''Leave not found or unauthorized''"

definition parent_location_invalid :: response where
  "parent_location_invalid =
     reply 400 ''Real-time parent location data is missing or invalid''"

definition leave_location_invalid :: response where
  "leave_location_invalid = reply 400 ''Leave location data is missing or invalid''"

definition leave_coordinates_invalid :: response where
  "leave_coordinates_invalid =
     reply 400 ''Leave location coordinates are missing or invalid''"

definition approval_not_allowed :: response where
  "approval_not_allowed =
     reply 400 ''Approval not allowed. Parent is within the restricted radius of the leave location.''"

definition already_reviewed :: response where
  "already_reviewed = reply 400 ''Leave already reviewed''"

definition failed_to_review :: response where
  "failed_to_review = reply 500 ''Failed to review leave''"

definition reviewed_by_parent :: "string \<Rightarrow> leave \<Rightarrow> response" where
  "reviewed_by_parent act l =
     \<lparr>code = 200, message = ''Leave '' @ act @ ''ed by parent'', data = LeaveData l\<rparr>"

text \<open>
  Reading \<open>leave.leaveLocation\<close> from a document gives an object with the two paths
  of the nested path, never \<open>undefined\<close>.
\<close>

definition leaveLocationValue :: "leave \<Rightarrow> json" where
  "leaveLocationValue l =
     JObject [(''type'', JString ''Point''),
              (''coordinates'', JArray (map JNumber (leaveLocation l)))]"

text \<open>
  The tests the controller makes on a location value: \<open>!v\<close>,
  \<open>typeof v !== "object"\<close> (true of \<open>null\<close> and of arrays too),
  \<open>"coordinates" in v\<close> (an array has no property of that name),
  \<open>v.coordinates\<close>, \<open>Array.isArray\<close> and \<open>length\<close>.
\<close>

definition truthy :: "json \<Rightarrow> bool" where
  "truthy v =
     (case v of
        JUndefined \<Rightarrow> False
      | JNull \<Rightarrow> False
      | JBool b \<Rightarrow> b
      | JNumber x \<Rightarrow> x \<noteq> NaN \<and> x \<noteq> Fin 0 \<and> x \<noteq> NegZero
      | JString s \<Rightarrow> s \<noteq> []
      | JArray xs \<Rightarrow> True
      | JObject props \<Rightarrow> True)"

definition isObject :: "json \<Rightarrow> bool" where
  "isObject v =
     (case v of JNull \<Rightarrow> True | JArray xs \<Rightarrow> True | JObject props \<Rightarrow> True
      | _ \<Rightarrow> False)"

definition hasCoordinates :: "json \<Rightarrow> bool" where
  "hasCoordinates v =
     (case v of JObject props \<Rightarrow> ''coordinates'' \<in> set (map fst props) | _ \<Rightarrow> False)"

definition coordinates :: "json \<Rightarrow> json" where
  "coordinates v =
     (case v of
        JObject props \<Rightarrow>
          (case map_of props ''coordinates'' of None \<Rightarrow> JUndefined | Some c \<Rightarrow> c)
      | _ \<Rightarrow> JUndefined)"

definition isArray :: "json \<Rightarrow> bool" where
  "isArray c = (case c of JArray xs \<Rightarrow> True | _ \<Rightarrow> False)"

definition elements :: "json \<Rightarrow> json list" where
  "elements c = (case c of JArray xs \<Rightarrow> xs | _ \<Rightarrow> [])"

definition restrictedRadius :: js_number where
  "restrictedRadius = Fin 5"

text \<open>The queries and the write of \<open>reviewLeave\<close>.\<close>

definition findUserByRole :: "db \<Rightarrow> oid \<Rightarrow> role \<Rightarrow> user option" where
  "findUserByRole d i r = find (\<lambda>u. user_id u = i \<and> role u = r) (users d)"

definition findLeaveOfChildren :: "db \<Rightarrow> oid \<Rightarrow> oid list \<Rightarrow> leave option" where
  "findLeaveOfChildren d i cs =
     find (\<lambda>l. leave_id l = i \<and> studentId l \<in> set cs) (leaves d)"

text \<open>An update of one document: the first one that matches is replaced.\<close>

fun updateFirst :: "('a \<Rightarrow> bool) \<Rightarrow> ('a \<Rightarrow> 'a) \<Rightarrow> 'a list \<Rightarrow> 'a list" where
  "updateFirst P f [] = []"
| "updateFirst P f (x # xs) = (if P x then f x # xs else x # updateFirst P f xs)"

definition saveLeave :: "leave \<Rightarrow> db \<Rightarrow> db" where
  "saveLeave l d =
     d\<lparr>leaves := updateFirst (\<lambda>x. leave_id x = leave_id l) (\<lambda>x. l) (leaves d)\<rparr>"

text \<open>
  The checks of \<open>reviewLeave\<close> in the order of the source; none of them writes.
  First the caller, the action, the parent and the leave: the result is the refusal,
  or the parent's id and the leave that was found.
\<close>

definition findLeaveForParent ::
  "(io \<Rightarrow> bool) \<Rightarrow> review_request \<Rightarrow> db \<Rightarrow> response + (oid \<times> leave)" where
  "findLeaveForParent fails req d =
     (case rq_user req of
        None \<Rightarrow> Inl unauthorized
      | Some pidStr \<Rightarrow>
          if pidStr = [] then Inl unauthorized
          else if rq_action req \<notin> set [''approve'', ''reject''] then Inl invalid_action
          else if fails FindParent then Inl failed_to_review
          else (case castObjectId pidStr of
             None \<Rightarrow> Inl failed_to_review
           | Some pid \<Rightarrow>
          (case findUserByRole d pid Parent of
             None \<Rightarrow> Inl parent_not_found
           | Some parent \<Rightarrow>
          if fails FindLeave then Inl failed_to_review
          else (case castObjectId (rq_leaveId req) of
             None \<Rightarrow> Inl failed_to_review
           | Some lid \<Rightarrow>
          (case findLeaveOfChildren d lid (children parent) of
             None \<Rightarrow> Inl leave_not_found_or_unauthorized
           | Some l \<Rightarrow> Inr (pid, l))))))"

text \<open>
  Then the parent's current location and the location stored in the leave: the result
  is the refusal, or the two coordinate arrays.
\<close>

definition locationChecks ::
  "review_request \<Rightarrow> leave \<Rightarrow> response + (json list \<times> json list)" where
  "locationChecks req l =
     (let currentParentLocation = rq_currentParentLocation req;
          leaveLocation' = leaveLocationValue l in
      if \<not> truthy currentParentLocation \<or>
         \<not> isObject currentParentLocation \<or>
         \<not> hasCoordinates currentParentLocation \<or>
         \<not> isArray (coordinates currentParentLocation) \<or>
         length (elements (coordinates currentParentLocation)) \<noteq> 2
      then Inl parent_location_invalid
      else if \<not> truthy leaveLocation' \<or>
         \<not> isObject leaveLocation' \<or>
         \<not> hasCoordinates leaveLocation'
      then Inl leave_location_invalid
      else if \<not> isArray (coordinates leaveLocation') \<or>
         length (elements (coordinates leaveLocation')) \<noteq> 2
      then Inl leave_coordinates_invalid
      else Inr (elements (coordinates currentParentLocation),
                elements (coordinates leaveLocation')))"

text \<open>Then the distance, and last the test that the leave is still pending.\<close>

definition reviewChecks ::
  "platform \<Rightarrow> (io \<Rightarrow> bool) \<Rightarrow> review_request \<Rightarrow> db \<Rightarrow> response + (oid \<times> leave)" where
  "reviewChecks pf fails req d =
     (case findLeaveForParent fails req d of
        Inl refusal \<Rightarrow> Inl refusal
      | Inr (pid, l) \<Rightarrow>
     (case locationChecks req l of
        Inl refusal \<Rightarrow> Inl refusal
      | Inr (parentCoordinates, leaveCoordinates) \<Rightarrow>
          let distance = calculateDistance pf parentCoordinates leaveCoordinates in
          if numberLess distance restrictedRadius \<and> rq_action req = ''approve''
          then Inl approval_not_allowed
          else if status l \<noteq> Pending then Inl already_reviewed
          else Inr (pid, l)))"

text \<open>The assignments to \<open>leave.parentReview\<close> and \<open>leave.status\<close>.\<close>

definition reviewStatus :: "string \<Rightarrow> status" where
  "reviewStatus act = (if act = ''approve'' then Approved else Rejected)"

definition staffApproved :: "leave \<Rightarrow> bool" where
  "staffApproved l =
     (case staffReview l of None \<Rightarrow> False | Some r \<Rightarrow> r_status r = Approved)"

definition remarksOrDefault :: "string option \<Rightarrow> string" where
  "remarksOrDefault rem = (case rem of None \<Rightarrow> [] | Some r \<Rightarrow> r)"

definition parentDecision :: "nat \<Rightarrow> oid \<Rightarrow> string \<Rightarrow> string option \<Rightarrow> leave \<Rightarrow> leave" where
  "parentDecision now pid act rem l =
     (let l1 = l\<lparr>parentReview :=
                 Some \<lparr>r_status = reviewStatus act, r_remarks = remarksOrDefault rem,
                       reviewedBy = Some pid, reviewedAt = Some now\<rparr>\<rparr>
      in if staffApproved l1 \<and> act = ''approve'' then l1\<lparr>status := Approved\<rparr>
         else if act = ''reject'' then l1\<lparr>status := Rejected\<rparr>
         else l1\<lparr>status := Pending\<rparr>)"

text \<open>
  The whole handler: the checks, the decision and its save, and for a terminal status
  the erasure of \<open>leaveLocation\<close> (\<open>leave.leaveLocation = undefined\<close> unsets the
  nested path) with a second save.
\<close>

definition reviewLeave ::
  "platform \<Rightarrow> (io \<Rightarrow> bool) \<Rightarrow> nat \<Rightarrow> review_request \<Rightarrow> db \<Rightarrow> response \<times> db" where
  "reviewLeave pf fails now req d =
     (case reviewChecks pf fails req d of
        Inl refusal \<Rightarrow> (refusal, d)
      | Inr (pid, l) \<Rightarrow>
          let l2 = parentDecision now pid (rq_action req) (rq_remarks req) l in
          if fails SaveReview then (failed_to_review, d)
          else
            let d2 = saveLeave l2 d in
            if status l2 = Approved \<or> status l2 = Rejected then
              let l3 = l2\<lparr>leaveLocation := []\<rparr> in
              if fails SaveRedaction then (failed_to_review, d2)
              else (reviewed_by_parent (rq_action req) l3, saveLeave l3 d2)
            else (reviewed_by_parent (rq_action req) l2, d2))"


section \<open>Admin override (\<open>leaveAdminApprove\<close>)\<close>

record admin_request =
  ar_leaveId :: string
  ar_action :: string
  ar_user :: "string option"

text \<open>
  What the handler takes from its environment: the two \<open>new Date()\<close> values, and
  the ids that \<open>new ObjectId(undefined)\<close> generates when the request carries no
  user.
\<close>

record admin_env =
  staffReviewedAt :: nat
  parentReviewedAt :: nat
  generatedStaffId :: oid
  generatedParentId :: oid

definition invalid_leave_id :: response where
  "invalid_leave_id = reply 400 ''Invalid leave ID''"

definition leave_not_found :: response where
  "leave_not_found = reply 404 ''Leave not found''"

definition failed_to_save :: response where
  "failed_to_save = reply 500 ''Failed to save leave review''"

definition decided_by_admin :: "string \<Rightarrow> leave \<Rightarrow> response" where
  "decided_by_admin act l =
     \<lparr>code = 200, message = ''Leave '' @ act @ ''ed successfully'', data = LeaveData l\<rparr>"

text \<open>
  \<open>new mongoose.Types.ObjectId(id)\<close>: a fresh id for \<open>undefined\<close>, the cast id for
  a string that casts, and an exception (\<open>None\<close>) for any other string.
\<close>

definition newObjectId :: "string option \<Rightarrow> oid \<Rightarrow> oid option" where
  "newObjectId given generated =
     (case given of None \<Rightarrow> Some generated | Some s \<Rightarrow> castObjectId s)"

definition findLeaveById :: "db \<Rightarrow> oid \<Rightarrow> leave option" where
  "findLeaveById d i = find (\<lambda>l. leave_id l = i) (leaves d)"

text \<open>The \<open>$set\<close> of \<open>findOneAndUpdate\<close>: the status and the four paths of each review.\<close>

definition adminDecision :: "admin_env \<Rightarrow> oid \<Rightarrow> oid \<Rightarrow> string \<Rightarrow> leave \<Rightarrow> leave" where
  "adminDecision env staffBy parentBy act l =
     l\<lparr>status := reviewStatus act,
       staffReview :=
         Some \<lparr>r_status = reviewStatus act, r_remarks = ''Approved by admin'',
               reviewedBy = Some staffBy, reviewedAt = Some (staffReviewedAt env)\<rparr>,
       parentReview :=
         Some \<lparr>r_status = reviewStatus act, r_remarks = ''Approved by admin'',
               reviewedBy = Some parentBy, reviewedAt = Some (parentReviewedAt env)\<rparr>\<rparr>"

definition updateLeaveById :: "oid \<Rightarrow> (leave \<Rightarrow> leave) \<Rightarrow> db \<Rightarrow> db" where
  "updateLeaveById i f d = d\<lparr>leaves := updateFirst (\<lambda>x. leave_id x = i) f (leaves d)\<rparr>"

definition leaveAdminApprove ::
  "(io \<Rightarrow> bool) \<Rightarrow> admin_env \<Rightarrow> admin_request \<Rightarrow> db \<Rightarrow> response \<times> db" where
  "leaveAdminApprove fails env req d =
     (if ar_action req \<notin> set [''approve'', ''reject''] then (invalid_action, d)
      else if \<not> isValid (ar_leaveId req) then (invalid_leave_id, d)
      else if fails FindLeaveById then (failed_to_review, d)
      else (case castObjectId (ar_leaveId req) of
         None \<Rightarrow> (failed_to_review, d)
       | Some lid \<Rightarrow>
      (case findLeaveById d lid of
         None \<Rightarrow> (leave_not_found, d)
       | Some l \<Rightarrow>
      (case newObjectId (ar_user req) (generatedStaffId env) of
         None \<Rightarrow> (failed_to_save, d)
       | Some staffBy \<Rightarrow>
      (case newObjectId (ar_user req) (generatedParentId env) of
         None \<Rightarrow> (failed_to_save, d)
       | Some parentBy \<Rightarrow>
      if fails UpdateLeave then (failed_to_save, d)
      else
        let d2 = updateLeaveById lid (adminDecision env staffBy parentBy (ar_action req)) d
        in (case findLeaveById d2 lid of
              None \<Rightarrow> (failed_to_save, d2)
            | Some updatedLeave \<Rightarrow> (decided_by_admin (ar_action req) updatedLeave, d2)))))))"

text \<open>
  Invariant I1 of the specification for one leave: the location is present exactly
  when the overall status is pending.
\<close>

definition locationPresent :: "leave \<Rightarrow> bool" where
  "locationPresent l = (leaveLocation l \<noteq> [])"

definition I1 :: "leave \<Rightarrow> bool" where
  "I1 l = (locationPresent l = (status l = Pending))"


section \<open>Linking a parent to a student (\<open>assignParentToStudent\<close>)\<close>

record assign_request =
  as_studentId :: "string option"
  as_parentId :: "string option"

definition both_required :: response where
  "both_required = reply 400 ''Both studentId and parentId are required''"

definition student_or_parent_not_found :: response where
  "student_or_parent_not_found =
     reply 404 ''Student or parent not found or invalid roles''"

definition already_has_parent :: response where
  "already_has_parent = reply 400 ''Student already has a parent assigned''"

definition error_assigning :: response where
  "error_assigning = reply 500 ''Error assigning student to parent''"

text \<open>
  The outer \<open>catch\<close> calls \<open>abortTransaction\<close> before it answers 500. When that
  call throws (the driver refuses to abort a transaction that the inner \<open>catch\<close> has
  aborted already, or that is committed), the handler ends without an answer: \<open>None\<close>.
\<close>

definition outerCatch :: "(io \<Rightarrow> bool) \<Rightarrow> response option" where
  "outerCatch fails = (if fails AbortInCatch then None else Some error_assigning)"

definition assigned :: "user option \<Rightarrow> response" where
  "assigned u =
     \<lparr>code = 200, message = ''Student successfully assigned to parent'', data = UserData u\<rparr>"

definition falsy :: "string option \<Rightarrow> bool" where
  "falsy v = (case v of None \<Rightarrow> True | Some s \<Rightarrow> s = [])"

definition findUserById :: "db \<Rightarrow> oid \<Rightarrow> user option" where
  "findUserById d i = find (\<lambda>u. user_id u = i) (users d)"

definition updateUserById :: "oid \<Rightarrow> (user \<Rightarrow> user) \<Rightarrow> db \<Rightarrow> db" where
  "updateUserById i f d = d\<lparr>users := updateFirst (\<lambda>u. user_id u = i) f (users d)\<rparr>"

definition setParent :: "oid \<Rightarrow> user \<Rightarrow> user" where
  "setParent pid u = u\<lparr>parentId := Some pid\<rparr>"

definition addToSetChildren :: "oid \<Rightarrow> user \<Rightarrow> user" where
  "addToSetChildren sid u =
     (if sid \<in> set (children u) then u else u\<lparr>children := children u @ [sid]\<rparr>)"

text \<open>The database with both writes of the assignment applied.\<close>

definition bothWrites :: "oid \<Rightarrow> oid \<Rightarrow> db \<Rightarrow> db" where
  "bothWrites sid pid d =
     updateUserById pid (addToSetChildren sid) (updateUserById sid (setParent pid) d)"

text \<open>
  The two writes carry the session of the transaction that the handler starts. A write
  in a transaction is staged: it is visible outside once \<open>commitTransaction\<close> has
  succeeded, and \<open>abortTransaction\<close> (or the end of the session) drops it. The
  handler's state is the committed database; the staged one is \<open>tx1\<close>, \<open>tx2\<close>.
  A \<open>commitTransaction\<close> that throws is taken not to have committed. An early
  \<open>return\<close> leaves the \<open>try\<close> through \<open>finally\<close>, with nothing staged.
\<close>

definition assignParentToStudent ::
  "(io \<Rightarrow> bool) \<Rightarrow> assign_request \<Rightarrow> db \<Rightarrow> response option \<times> db" where
  "assignParentToStudent fails req d =
     (if falsy (as_studentId req) \<or> falsy (as_parentId req) then (Some both_required, d)
      else if fails FindStudent then (outerCatch fails, d)
      else (case castObjectId (the (as_studentId req)) of
         None \<Rightarrow> (outerCatch fails, d)
       | Some sid \<Rightarrow>
      let student = findUserByRole d sid Student in
      if fails FindParentUser then (outerCatch fails, d)
      else (case castObjectId (the (as_parentId req)) of
         None \<Rightarrow> (outerCatch fails, d)
       | Some pid \<Rightarrow>
      let parent = findUserByRole d pid Parent in
      (case (student, parent) of
         (Some st, Some pa) \<Rightarrow>
           if parentId st \<noteq> None then (Some already_has_parent, d)
           else if fails WriteStudent then (outerCatch fails, d)
           else
             let tx1 = updateUserById sid (setParent pid) d in
             if fails WriteParent then (outerCatch fails, d)
             else
               let tx2 = updateUserById pid (addToSetChildren sid) tx1 in
               if fails Commit then (outerCatch fails, d)
               else if fails FetchUpdated then (outerCatch fails, tx2)
               else (Some (assigned (findUserById tx2 sid)), tx2)
       | _ \<Rightarrow> (Some student_or_parent_not_found, d)))))"


text \<open>
  The preconditions of the assignment: both ids are given and cast, the first names a
  user with role student who has no parent yet, the second a user with role parent.
\<close>

definition assignable :: "assign_request \<Rightarrow> db \<Rightarrow> bool" where
  "assignable req d =
     (\<not> falsy (as_studentId req) \<and> \<not> falsy (as_parentId req) \<and>
      (case (castObjectId (the (as_studentId req)), castObjectId (the (as_parentId req))) of
         (Some sid, Some pid) \<Rightarrow>
           (case (findUserByRole d sid Student, findUserByRole d pid Parent) of
              (Some st, Some pa) \<Rightarrow> parentId st = None
            | _ \<Rightarrow> False)
       | _ \<Rightarrow> False))"


section \<open>Deleting a student (\<open>deleteStudent\<close> and the \<open>deleteOne\<close> hook)\<close>

text \<open>
  The complaint model is not among the sources. What the deletion depends on is taken
  as a parameter: the name of the schema path that holds the owning student, and
  whether \<open>strictQuery\<close> is on. A filter on a path that the schema does not have
  is dropped under \<open>strictQuery\<close>, so it matches every document; otherwise it is
  sent as it is and matches none, no complaint having such a path.
\<close>

record complaint_schema =
  ownerPath :: string
  strictQuery :: bool

definition complaintMatches :: "complaint_schema \<Rightarrow> string \<Rightarrow> oid \<Rightarrow> complaint \<Rightarrow> bool" where
  "complaintMatches cfg path i c =
     (if path = ownerPath cfg then owner c = i else strictQuery cfg)"

definition deleteManyLeaves :: "oid \<Rightarrow> db \<Rightarrow> db" where
  "deleteManyLeaves sid d = d\<lparr>leaves := filter (\<lambda>l. studentId l \<noteq> sid) (leaves d)\<rparr>"

definition deleteManyComplaints :: "complaint_schema \<Rightarrow> string \<Rightarrow> oid \<Rightarrow> db \<Rightarrow> db" where
  "deleteManyComplaints cfg path sid d =
     d\<lparr>complaints := filter (\<lambda>c. \<not> complaintMatches cfg path sid c) (complaints d)\<rparr>"

fun removeFirst :: "('a \<Rightarrow> bool) \<Rightarrow> 'a list \<Rightarrow> 'a list" where
  "removeFirst P [] = []"
| "removeFirst P (x # xs) = (if P x then xs else x # removeFirst P xs)"

definition deleteUserById :: "oid \<Rightarrow> db \<Rightarrow> db" where
  "deleteUserById i d = d\<lparr>users := removeFirst (\<lambda>u. user_id u = i) (users d)\<rparr>"

definition student_not_found :: response where
  "student_not_found = reply 404 ''student not found''"

definition error_deleting_student :: response where
  "error_deleting_student = reply 500 ''Error deleting student''"

definition student_deleted :: response where
  "student_deleted = reply 200 ''student deleted successfully''"

text \<open>
  \<open>userSchema.pre("deleteOne", {document: true})\<close> followed by the removal of the
  document itself: an error in the hook is passed to \<open>next\<close> and the document stays.
  The flag of the result says whether the deletion went through.
\<close>

definition documentDeleteOne ::
  "(io \<Rightarrow> bool) \<Rightarrow> complaint_schema \<Rightarrow> oid \<Rightarrow> db \<Rightarrow> bool \<times> db" where
  "documentDeleteOne fails cfg uid d =
     (if fails HookDeleteLeaves then (False, d)
      else
        let d1 = deleteManyLeaves uid d in
        if fails HookDeleteComplaints then (False, d1)
        else
          let d2 = deleteManyComplaints cfg ''studentId'' uid d1 in
          if fails DeleteUser then (False, d2)
          else (True, deleteUserById uid d2))"

definition deleteStudent ::
  "(io \<Rightarrow> bool) \<Rightarrow> complaint_schema \<Rightarrow> string \<Rightarrow> db \<Rightarrow> response \<times> db" where
  "deleteStudent fails cfg idStr d =
     (if fails FindStudent then (error_deleting_student, d)
      else (case castObjectId idStr of
         None \<Rightarrow> (error_deleting_student, d)
       | Some sid \<Rightarrow>
      (case findUserByRole d sid Student of
         None \<Rightarrow> (student_not_found, d)
       | Some student \<Rightarrow>
      if fails DeleteLeaves then (error_deleting_student, d)
      else
        let d1 = deleteManyLeaves (user_id student) d in
        if fails DeleteComplaints then (error_deleting_student, d1)
        else
          let d2 = deleteManyComplaints cfg ''student'' (user_id student) d1 in
          (case documentDeleteOne fails cfg (user_id student) d2 of
             (False, d3) \<Rightarrow> (error_deleting_student, d3)
           | (True, d3) \<Rightarrow> (student_deleted, d3)))))"


section \<open>Example data\<close>

definition parentA :: oid where
  "parentA = ''aaaaaaaaaaaaaaaaaaaaaaaa''"

definition studentB :: oid where
  "studentB = ''bbbbbbbbbbbbbbbbbbbbbbbb''"

definition leaveC :: oid where
  "leaveC = ''cccccccccccccccccccccccc''"

definition adminD :: oid where
  "adminD = ''dddddddddddddddddddddddd''"

text \<open>Stored coordinates, and the erased location.\<close>

definition stored :: "real \<Rightarrow> real \<Rightarrow> js_number list" where
  "stored lon lat = [Fin lon, Fin lat]"

definition erased :: "js_number list" where
  "erased = []"

definition exampleLeave :: "status \<Rightarrow> review option \<Rightarrow> js_number list \<Rightarrow> leave" where
  "exampleLeave st staff loc =
     \<lparr>leave_id = leaveC, studentId = studentB, status = st,
      parentReview = None, staffReview = staff, leaveLocation = loc\<rparr>"

definition exampleDb :: "leave \<Rightarrow> db" where
  "exampleDb l =
     \<lparr>users = [\<lparr>user_id = parentA, role = Parent, parentId = None, children = [studentB]\<rparr>,
               \<lparr>user_id = studentB, role = Student, parentId = Some parentA, children = []\<rparr>],
      leaves = [l],
      complaints = [\<lparr>complaint_id = ''eeeeeeeeeeeeeeeeeeeeeeee'', owner = studentB\<rparr>]\<rparr>"

definition staffOk :: review where
  "staffOk =
     \<lparr>r_status = Approved, r_remarks = ''fine'', reviewedBy = Some adminD,
      reviewedAt = Some 3\<rparr>"

text \<open>A staff review that exists and has decided nothing: the defaults of the schema.\<close>

definition staffUndecided :: review where
  "staffUndecided =
     \<lparr>r_status = Pending, r_remarks = [], reviewedBy = None, reviewedAt = None\<rparr>"

definition exampleEnv :: admin_env where
  "exampleEnv =
     \<lparr>staffReviewedAt = 11, parentReviewedAt = 12,
      generatedStaffId = ''111111111111111111111111'',
      generatedParentId = ''222222222222222222222222''\<rparr>"

definition exampleAdminRequest :: "string \<Rightarrow> admin_request" where
  "exampleAdminRequest act = \<lparr>ar_leaveId = leaveC, ar_action = act, ar_user = Some adminD\<rparr>"

definition unlinkedDb :: db where
  "unlinkedDb =
     \<lparr>users = [\<lparr>user_id = parentA, role = Parent, parentId = None, children = []\<rparr>,
               \<lparr>user_id = studentB, role = Student, parentId = None, children = []\<rparr>],
      leaves = [], complaints = []\<rparr>"

definition exampleAssign :: assign_request where
  "exampleAssign = \<lparr>as_studentId = Some studentB, as_parentId = Some parentA\<rparr>"

definition secondWriteFails :: "io \<Rightarrow> bool" where
  "secondWriteFails step = (step = WriteParent)"

definition exampleSchema :: complaint_schema where
  "exampleSchema = \<lparr>ownerPath = ''studentId'', strictQuery = False\<rparr>"

text \<open>The location a client sends: a GeoJSON point.\<close>

definition point :: "real \<Rightarrow> real \<Rightarrow> json" where
  "point lon lat =
     JObject [(''type'', JString ''Point''),
              (''coordinates'', JArray [JNumber (Fin lon), JNumber (Fin lat)])]"

definition exampleReview :: "string \<Rightarrow> json \<Rightarrow> review_request" where
  "exampleReview act loc =
     \<lparr>rq_leaveId = leaveC, rq_action = act, rq_remarks = Some ''ok'',
      rq_currentParentLocation = loc, rq_user = Some parentA\<rparr>"

text \<open>
  A platform to run the examples on: the operations of the real numbers on finite
  operands, without rounding. On the coordinates of the examples below (twice the same
  point; the points \<open>[0, 0]\<close> and \<open>[180, 0]\<close>) the binary64 computation compares with
  5 as this one does: it gives 0 and 20015.086796020572.
\<close>

definition arctan2 :: "real \<Rightarrow> real \<Rightarrow> real" where
  "arctan2 y x =
     (if 0 < x then arctan (y / x)
      else if x < 0 then (if 0 \<le> y then arctan (y / x) + pi else arctan (y / x) - pi)
      else if 0 < y then pi / 2
      else if y < 0 then - (pi / 2)
      else 0)"

definition exactUnary :: "(real \<Rightarrow> real) \<Rightarrow> js_number \<Rightarrow> js_number" where
  "exactUnary f x = (case x of Fin a \<Rightarrow> Fin (f a) | _ \<Rightarrow> NaN)"

definition exactBinary :: "(real \<Rightarrow> real \<Rightarrow> real) \<Rightarrow> js_number \<Rightarrow> js_number \<Rightarrow> js_number" where
  "exactBinary f x y =
     (case x of Fin a \<Rightarrow> (case y of Fin b \<Rightarrow> Fin (f a b) | _ \<Rightarrow> NaN) | _ \<Rightarrow> NaN)"

definition exactSqrt :: "js_number \<Rightarrow> js_number" where
  "exactSqrt x = (case x of Fin a \<Rightarrow> (if a < 0 then NaN else Fin (sqrt a)) | _ \<Rightarrow> NaN)"

definition examplePlatform :: platform where
  "examplePlatform =
     \<lparr>num_add = exactBinary (\<lambda>a b. a + b),
      num_sub = exactBinary (\<lambda>a b. a - b),
      num_mul = exactBinary (\<lambda>a b. a * b),
      num_div = exactBinary (\<lambda>a b. a / b),
      num_pow = exactBinary (\<lambda>a b. if b = 2 then a * a else a powr b),
      math_PI = Fin pi,
      math_sin = exactUnary sin,
      math_cos = exactUnary cos,
      math_sqrt = exactSqrt,
      math_atan2 = exactBinary arctan2,
      stringToNumber = (\<lambda>s. NaN),
      objectToNumber = (\<lambda>v. NaN)\<rparr>"


section \<open>Properties of the parent review\<close>

lemmas example_defs = parentA_def studentB_def leaveC_def adminD_def exampleLeave_def
  exampleDb_def point_def exampleReview_def no_faults_def stored_def erased_def

lemmas cast_defs = castObjectId_def isValid_def isHexDigit_def lowerHex_def

lemmas response_defs = reply_def unauthorized_def invalid_action_def parent_not_found_def
  leave_not_found_or_unauthorized_def parent_location_invalid_def leave_location_invalid_def
  leave_coordinates_invalid_def approval_not_allowed_def already_reviewed_def
  failed_to_review_def reviewed_by_parent_def

lemmas location_defs = truthy_def isObject_def hasCoordinates_def coordinates_def
  isArray_def elements_def leaveLocationValue_def

lemmas platform_defs = examplePlatform_def exactBinary_def exactUnary_def exactSqrt_def
  arctan2_def

lemma calculateDistance_same:
  "calculateDistance examplePlatform [JNumber (Fin lon), JNumber (Fin lat)]
     [JNumber (Fin lon), JNumber (Fin lat)] = Fin 0"
  by (simp add: calculateDistance_def deg2rad_def toNumber_def element_def Let_def
      platform_defs)

lemma calculateDistance_half_turn:
  "calculateDistance examplePlatform [JNumber (Fin 0), JNumber (Fin 0)]
     [JNumber (Fin 180), JNumber (Fin 0)] = Fin (6371 * pi)"
  by (simp add: calculateDistance_def deg2rad_def toNumber_def element_def Let_def
      platform_defs)

lemma same_within:
  "numberLess (calculateDistance examplePlatform [JNumber (Fin lon), JNumber (Fin lat)]
     [JNumber (Fin lon), JNumber (Fin lat)]) (Fin 5)"
  by (simp add: calculateDistance_same numberLess_def finiteValue_def)

lemma far_not_within:
  "\<not> numberLess (calculateDistance examplePlatform [JNumber (Fin 0), JNumber (Fin 0)]
     [JNumber (Fin 180), JNumber (Fin 0)]) (Fin 5)"
proof -
  have "5 < 6371 * pi" using pi_ge_two by simp
  then show ?thesis
    by (simp add: calculateDistance_half_turn numberLess_def finiteValue_def)
qed

lemma find_updateFirst_const:
  "x \<in> set xs \<Longrightarrow> P x \<Longrightarrow> P y \<Longrightarrow> find P (updateFirst P (\<lambda>z. y) xs) = Some y"
  by (induction xs) auto

lemma find_updateFirst_same:
  "find P xs = Some x \<Longrightarrow> P (f x) \<Longrightarrow> find P (updateFirst P f xs) = Some (f x)"
  by (induction xs) (auto split: if_splits)

lemma find_SomeD: "find P xs = Some x \<Longrightarrow> P x \<and> x \<in> set xs"
  by (induction xs) (auto split: if_splits)

lemma findLeaveForParent_InrD:
  assumes "findLeaveForParent fails req d = Inr (pid, l)"
  shows "l \<in> set (leaves d) \<and> rq_action req \<in> {''approve'', ''reject''}"
  using assms
  by (auto simp: findLeaveForParent_def findLeaveOfChildren_def
      split: option.splits if_splits dest: find_SomeD)

lemma findLeaveForParent_InlD:
  assumes "findLeaveForParent fails req d = Inl r"
  shows "r \<in> {unauthorized, invalid_action, failed_to_review, parent_not_found,
               leave_not_found_or_unauthorized}"
  using assms
  by (auto simp: findLeaveForParent_def split: option.splits if_splits)

text \<open>
  The first test on the stored location (lines 287 to 293) never fires: a nested path
  reads as an object that has \<open>coordinates\<close>.
\<close>

lemma stored_location_object:
  "truthy (leaveLocationValue l) \<and> isObject (leaveLocationValue l) \<and>
   hasCoordinates (leaveLocationValue l) \<and>
   isArray (coordinates (leaveLocationValue l)) \<and>
   elements (coordinates (leaveLocationValue l)) = map JNumber (leaveLocation l)"
  by (simp add: location_defs)

lemma has_key: "(k \<in> fst ` set xs) = (map_of xs k \<noteq> None)"
  by (simp add: map_of_eq_None_iff)

lemma parent_location_valid_iff:
  "(truthy v \<and> isObject v \<and> hasCoordinates v \<and> isArray (coordinates v) \<and>
    elements (coordinates v) = pc \<and> length pc = 2) =
   (\<exists>props. v = JObject props \<and> map_of props ''coordinates'' = Some (JArray pc) \<and>
      length pc = 2)"
  by (cases v)
     (auto simp: truthy_def isObject_def hasCoordinates_def coordinates_def isArray_def
       elements_def has_key split: option.splits json.splits)

lemma locationChecks_InlD:
  assumes "locationChecks req l = Inl r"
  shows "r \<in> {parent_location_invalid, leave_coordinates_invalid}"
  using assms stored_location_object [of l]
  by (auto simp: locationChecks_def Let_def split: if_splits)

lemma locationChecks_InrD:
  assumes "locationChecks req l = Inr (pc, lc)"
  shows "(\<exists>props. rq_currentParentLocation req = JObject props \<and>
            map_of props ''coordinates'' = Some (JArray pc) \<and> length pc = 2) \<and>
         length (leaveLocation l) = 2 \<and> lc = map JNumber (leaveLocation l)"
proof -
  let ?v = "rq_currentParentLocation req"
  from assms stored_location_object [of l]
  have "truthy ?v \<and> isObject ?v \<and> hasCoordinates ?v \<and> isArray (coordinates ?v) \<and>
      elements (coordinates ?v) = pc \<and> length pc = 2"
    and "length (leaveLocation l) = 2 \<and> lc = map JNumber (leaveLocation l)"
    by (auto simp: locationChecks_def Let_def split: if_splits)
  then show ?thesis
    using parent_location_valid_iff [of ?v pc] by blast
qed

lemma locationChecks_InrI:
  assumes "rq_currentParentLocation req = JObject props"
    and "map_of props ''coordinates'' = Some (JArray pc)" and "length pc = 2"
    and "length (leaveLocation l) = 2"
  shows "locationChecks req l = Inr (pc, map JNumber (leaveLocation l))"
proof -
  let ?v = "rq_currentParentLocation req"
  have "truthy ?v \<and> isObject ?v \<and> hasCoordinates ?v \<and> isArray (coordinates ?v) \<and>
      elements (coordinates ?v) = pc \<and> length pc = 2"
    using parent_location_valid_iff [of ?v pc] assms(1-3) by blast
  with assms(4) stored_location_object [of l] show ?thesis
    by (simp add: locationChecks_def Let_def)
qed

lemma locationChecks_stored_invalid:
  assumes "length (leaveLocation l) \<noteq> 2"
  shows "locationChecks req l = Inl parent_location_invalid \<or>
         locationChecks req l = Inl leave_coordinates_invalid"
    and "rq_currentParentLocation req = JObject props \<Longrightarrow>
         map_of props ''coordinates'' = Some (JArray pc) \<Longrightarrow> length pc = 2 \<Longrightarrow>
         locationChecks req l = Inl leave_coordinates_invalid"
proof -
  show "locationChecks req l = Inl parent_location_invalid \<or>
         locationChecks req l = Inl leave_coordinates_invalid"
    using assms stored_location_object [of l]
    by (auto simp: locationChecks_def Let_def)
next
  let ?v = "rq_currentParentLocation req"
  assume "rq_currentParentLocation req = JObject props"
    "map_of props ''coordinates'' = Some (JArray pc)" "length pc = 2"
  then have "truthy ?v \<and> isObject ?v \<and> hasCoordinates ?v \<and> isArray (coordinates ?v) \<and>
      elements (coordinates ?v) = pc \<and> length pc = 2"
    using parent_location_valid_iff [of ?v pc] by blast
  with assms stored_location_object [of l]
  show "locationChecks req l = Inl leave_coordinates_invalid"
    by (simp add: locationChecks_def Let_def)
qed

lemma reviewChecks_InrD:
  assumes "reviewChecks pf fails req d = Inr (pid, l)"
  shows "findLeaveForParent fails req d = Inr (pid, l) \<and> status l = Pending \<and>
         (\<exists>pc lc. locationChecks req l = Inr (pc, lc) \<and>
            \<not> (numberLess (calculateDistance pf pc lc) restrictedRadius \<and>
               rq_action req = ''approve''))"
  using assms
  by (auto simp: reviewChecks_def Let_def split: sum.splits if_splits prod.splits)

lemma reviewChecks_InrI:
  assumes "findLeaveForParent fails req d = Inr (pid, l)"
    and "locationChecks req l = Inr (pc, lc)"
    and "\<not> (numberLess (calculateDistance pf pc lc) restrictedRadius \<and>
            rq_action req = ''approve'')"
    and "status l = Pending"
  shows "reviewChecks pf fails req d = Inr (pid, l)"
  using assms by (auto simp: reviewChecks_def Let_def)

lemma findLeaveById_saveLeave:
  "x \<in> set (leaves d) \<Longrightarrow> leave_id x = leave_id l \<Longrightarrow>
   findLeaveById (saveLeave l d) (leave_id l) = Some l"
  by (simp add: findLeaveById_def saveLeave_def find_updateFirst_const [where x = x])

lemma findLeaveById_mem:
  "findLeaveById d k = Some x \<Longrightarrow> x \<in> set (leaves d) \<and> leave_id x = k"
  by (auto simp: findLeaveById_def dest: find_SomeD)

lemma parentDecision_fields:
  "leave_id (parentDecision now pid act rem l) = leave_id l \<and>
   staffReview (parentDecision now pid act rem l) = staffReview l \<and>
   leaveLocation (parentDecision now pid act rem l) = leaveLocation l \<and>
   parentReview (parentDecision now pid act rem l) =
     Some \<lparr>r_status = (if act = ''approve'' then Approved else Rejected),
           r_remarks = remarksOrDefault rem, reviewedBy = Some pid,
           reviewedAt = Some now\<rparr> \<and>
   status (parentDecision now pid act rem l) =
     (if (\<exists>r. staffReview l = Some r \<and> r_status r = Approved) \<and> act = ''approve''
      then Approved
      else if act = ''reject'' then Rejected else Pending)"
  by (auto simp: parentDecision_def Let_def reviewStatus_def staffApproved_def
      split: option.splits)

lemma reviewLeave_stores:
  assumes checks: "reviewChecks pf fails req d = Inr (pid, l)"
    and saves: "\<not> fails SaveReview" "\<not> fails SaveRedaction"
  shows "status l = Pending \<and>
    (\<exists>l'. fst (reviewLeave pf fails now req d) = reviewed_by_parent (rq_action req) l' \<and>
       findLeaveById (snd (reviewLeave pf fails now req d)) (leave_id l) = Some l' \<and>
       status l' =
         (if rq_action req = ''reject'' then Rejected
          else if (\<exists>r. staffReview l = Some r \<and> r_status r = Approved) then Approved
          else Pending) \<and>
       parentReview l' =
         Some \<lparr>r_status = (if rq_action req = ''approve'' then Approved else Rejected),
               r_remarks = remarksOrDefault (rq_remarks req), reviewedBy = Some pid,
               reviewedAt = Some now\<rparr> \<and>
       staffReview l' = staffReview l \<and>
       leaveLocation l' = (if status l' = Pending then leaveLocation l else []))"
proof -
  from reviewChecks_InrD [OF checks]
  have found: "findLeaveForParent fails req d = Inr (pid, l)" and pending: "status l = Pending"
    by simp_all
  from findLeaveForParent_InrD [OF found]
  have mem: "l \<in> set (leaves d)" and act: "rq_action req \<in> {''approve'', ''reject''}"
    by simp_all
  define l2 where "l2 = parentDecision now pid (rq_action req) (rq_remarks req) l"
  have f2: "leave_id l2 = leave_id l" "staffReview l2 = staffReview l"
    "leaveLocation l2 = leaveLocation l"
    "parentReview l2 =
       Some \<lparr>r_status = (if rq_action req = ''approve'' then Approved else Rejected),
             r_remarks = remarksOrDefault (rq_remarks req), reviewedBy = Some pid,
             reviewedAt = Some now\<rparr>"
    "status l2 =
       (if (\<exists>r. staffReview l = Some r \<and> r_status r = Approved) \<and> rq_action req = ''approve''
        then Approved
        else if rq_action req = ''reject'' then Rejected else Pending)"
    unfolding l2_def using parentDecision_fields by blast+
  have st2: "status l2 =
      (if rq_action req = ''reject'' then Rejected
       else if (\<exists>r. staffReview l = Some r \<and> r_status r = Approved) then Approved
       else Pending)"
    using f2(5) act by auto
  have s2: "findLeaveById (saveLeave l2 d) (leave_id l) = Some l2"
    using findLeaveById_saveLeave [of l d l2] mem f2(1) by simp
  show ?thesis
  proof (cases "status l2 = Pending")
    case True
    have run: "reviewLeave pf fails now req d =
        (reviewed_by_parent (rq_action req) l2, saveLeave l2 d)"
      using checks saves True by (simp add: reviewLeave_def Let_def l2_def [symmetric])
    show ?thesis
      using pending run s2 f2(2-4) st2 True by (intro conjI exI [of _ l2]) simp_all
  next
    case False
    define l3 where "l3 = l2\<lparr>leaveLocation := []\<rparr>"
    have terminal: "status l2 = Approved \<or> status l2 = Rejected"
      using False by (cases "status l2") simp_all
    have run: "reviewLeave pf fails now req d =
        (reviewed_by_parent (rq_action req) l3, saveLeave l3 (saveLeave l2 d))"
      using checks saves terminal
      by (auto simp add: reviewLeave_def Let_def l2_def [symmetric] l3_def)
    have "l2 \<in> set (leaves (saveLeave l2 d))"
      using findLeaveById_mem [OF s2] by simp
    then have s3: "findLeaveById (saveLeave l3 (saveLeave l2 d)) (leave_id l) = Some l3"
      using findLeaveById_saveLeave [of l2 "saveLeave l2 d" l3] f2(1) by (simp add: l3_def)
    show ?thesis
      using pending run s3 f2(2-4) st2 False
      by (intro conjI exI [of _ l3]) (simp_all add: l3_def)
  qed
qed

text \<open>
  The parent review keeps invariant I1: after a review that went through, the stored
  leave has its location exactly when it is still pending.
\<close>

lemma reviewLeave_keeps_I1:
  assumes checks: "reviewChecks pf fails req d = Inr (pid, l)"
    and saves: "\<not> fails SaveReview" "\<not> fails SaveRedaction"
  shows "\<exists>l'. findLeaveById (snd (reviewLeave pf fails now req d)) (leave_id l) = Some l' \<and>
           I1 l'"
proof -
  from reviewChecks_InrD [OF checks] obtain pc lc where "locationChecks req l = Inr (pc, lc)"
    by blast
  from locationChecks_InrD [OF this] have present: "leaveLocation l \<noteq> []"
    by auto
  from reviewLeave_stores [OF checks saves, of now] obtain l' where
    "findLeaveById (snd (reviewLeave pf fails now req d)) (leave_id l) = Some l'"
    "leaveLocation l' = (if status l' = Pending then leaveLocation l else [])"
    by blast
  with present show ?thesis
    by (auto simp: I1_def locationPresent_def)
qed

text \<open>
  C2. A parent reviews a pending leave of a child; the current location sent and the
  stored location are both arrays of two elements, and the request is not an approval
  whose computed distance is below 5 (the geofence passes); the saves succeed. Then the
  answer is 200 and the stored leave has the new overall status: rejected for a
  rejection, whatever the staff review is; approved for an approval when the stored
  staff review has status approved; still pending for an approval when there is no
  staff review or its status is not approved. The parent review carries the decision,
  the caller and the time, the staff review is untouched, and the location is erased
  exactly when the status became terminal.
\<close>

theorem reviewLeave_consensus:
  assumes found: "findLeaveForParent fails req d = Inr (pid, l)"
    and parentLocation: "rq_currentParentLocation req = JObject props"
      "map_of props ''coordinates'' = Some (JArray pc)" "length pc = 2"
    and leaveLocation: "length (leaveLocation l) = 2"
    and geofence: "\<not> (rq_action req = ''approve'' \<and>
        numberLess (calculateDistance pf pc (map JNumber (leaveLocation l))) (Fin 5))"
    and pending: "status l = Pending"
    and saves: "\<not> fails SaveReview" "\<not> fails SaveRedaction"
  shows "\<exists>l'. fst (reviewLeave pf fails now req d) = reviewed_by_parent (rq_action req) l' \<and>
       code (reviewed_by_parent (rq_action req) l') = 200 \<and>
       findLeaveById (snd (reviewLeave pf fails now req d)) (leave_id l) = Some l' \<and>
       (rq_action req = ''reject'' \<longrightarrow> status l' = Rejected) \<and>
       (rq_action req = ''approve'' \<and> (\<exists>r. staffReview l = Some r \<and> r_status r = Approved)
          \<longrightarrow> status l' = Approved) \<and>
       (rq_action req = ''approve'' \<and> (\<forall>r. staffReview l = Some r \<longrightarrow> r_status r \<noteq> Approved)
          \<longrightarrow> status l' = Pending) \<and>
       map_option r_status (parentReview l') =
         Some (if rq_action req = ''approve'' then Approved else Rejected) \<and>
       map_option reviewedBy (parentReview l') = Some (Some pid) \<and>
       map_option reviewedAt (parentReview l') = Some (Some now) \<and>
       staffReview l' = staffReview l \<and>
       leaveLocation l' = (if status l' = Pending then leaveLocation l else [])"
proof -
  have lc: "locationChecks req l = Inr (pc, map JNumber (leaveLocation l))"
    by (rule locationChecks_InrI [OF parentLocation leaveLocation])
  have g: "\<not> (numberLess (calculateDistance pf pc (map JNumber (leaveLocation l)))
        restrictedRadius \<and> rq_action req = ''approve'')"
    using geofence by (auto simp: restrictedRadius_def)
  have checks: "reviewChecks pf fails req d = Inr (pid, l)"
    by (rule reviewChecks_InrI [OF found lc g pending])
  from reviewLeave_stores [OF checks saves, of now] obtain l' where l':
    "fst (reviewLeave pf fails now req d) = reviewed_by_parent (rq_action req) l'"
    "findLeaveById (snd (reviewLeave pf fails now req d)) (leave_id l) = Some l'"
    "status l' =
       (if rq_action req = ''reject'' then Rejected
        else if (\<exists>r. staffReview l = Some r \<and> r_status r = Approved) then Approved
        else Pending)"
    "parentReview l' =
       Some \<lparr>r_status = (if rq_action req = ''approve'' then Approved else Rejected),
             r_remarks = remarksOrDefault (rq_remarks req), reviewedBy = Some pid,
             reviewedAt = Some now\<rparr>"
    "staffReview l' = staffReview l"
    "leaveLocation l' = (if status l' = Pending then leaveLocation l else [])"
    by blast
  have "rq_action req = ''approve'' \<Longrightarrow> rq_action req \<noteq> ''reject''"
    by auto
  with l' show ?thesis
    by (intro exI [of _ l'] conjI) (auto simp: reviewed_by_parent_def)
qed

lemma example_found:
  "findLeaveForParent no_faults (exampleReview act loc) (exampleDb (exampleLeave st staff lloc)) =
     (if act \<in> {''approve'', ''reject''} then Inr (parentA, exampleLeave st staff lloc)
      else Inl invalid_action)"
  by (simp add: findLeaveForParent_def example_defs cast_defs
      findUserByRole_def findLeaveOfChildren_def)

lemma example_request:
  "rq_currentParentLocation (exampleReview act (point x y)) =
     JObject [(''type'', JString ''Point''),
              (''coordinates'', JArray [JNumber (Fin x), JNumber (Fin y)])]"
  "map_of [(''type'', JString ''Point''),
           (''coordinates'', JArray [JNumber (Fin x), JNumber (Fin y)])] ''coordinates'' =
     Some (JArray [JNumber (Fin x), JNumber (Fin y)])"
  "length [JNumber (Fin x), JNumber (Fin y)] = 2"
  "rq_action (exampleReview act loc) = act"
  by (simp_all add: exampleReview_def point_def)

lemma example_leave:
  "leaveLocation (exampleLeave st staff loc) = loc"
  "status (exampleLeave st staff loc) = st"
  "staffReview (exampleLeave st staff loc) = staff"
  "leave_id (exampleLeave st staff loc) = leaveC"
  "length (stored u v) = 2"
  "map JNumber (stored u v) = [JNumber (Fin u), JNumber (Fin v)]"
  by (simp_all add: exampleLeave_def stored_def)

theorem reviewLeave_consensus_witness:
  "status (the (findLeaveById (snd (reviewLeave examplePlatform no_faults 7
      (exampleReview ''approve'' (point 0 0))
      (exampleDb (exampleLeave Pending (Some staffOk) (stored 180 0))))) leaveC)) = Approved \<and>
   status (the (findLeaveById (snd (reviewLeave examplePlatform no_faults 7
      (exampleReview ''approve'' (point 0 0))
      (exampleDb (exampleLeave Pending (Some staffUndecided) (stored 180 0))))) leaveC)) =
     Pending \<and>
   status (the (findLeaveById (snd (reviewLeave examplePlatform no_faults 7
      (exampleReview ''approve'' (point 0 0))
      (exampleDb (exampleLeave Pending None (stored 180 0))))) leaveC)) = Pending \<and>
   status (the (findLeaveById (snd (reviewLeave examplePlatform no_faults 7
      (exampleReview ''reject'' (point 0 0))
      (exampleDb (exampleLeave Pending (Some staffOk) (stored 180 0))))) leaveC)) = Rejected"
proof -
  have run: "\<exists>l'. findLeaveById (snd (reviewLeave examplePlatform no_faults 7
        (exampleReview act (point 0 0))
        (exampleDb (exampleLeave Pending staff (stored 180 0))))) leaveC = Some l' \<and>
      (act = ''reject'' \<longrightarrow> status l' = Rejected) \<and>
      (act = ''approve'' \<and> (\<exists>r. staff = Some r \<and> r_status r = Approved)
         \<longrightarrow> status l' = Approved) \<and>
      (act = ''approve'' \<and> (\<forall>r. staff = Some r \<longrightarrow> r_status r \<noteq> Approved)
         \<longrightarrow> status l' = Pending)"
    if valid: "act \<in> {''approve'', ''reject''}" for act staff
  proof -
    let ?l = "exampleLeave Pending staff (stored 180 0)"
    let ?req = "exampleReview act (point 0 0)"
    have nf: "\<not> no_faults SaveReview" "\<not> no_faults SaveRedaction"
      by (simp_all add: no_faults_def)
    have fence: "\<not> (rq_action ?req = ''approve'' \<and>
        numberLess (calculateDistance examplePlatform [JNumber (Fin 0), JNumber (Fin 0)]
          (map JNumber (leaveLocation ?l))) (Fin 5))"
      using far_not_within by (simp add: example_leave)
    have len: "length (leaveLocation ?l) = 2" and pend: "status ?l = Pending"
      by (simp_all add: example_leave)
    have found: "findLeaveForParent no_faults ?req (exampleDb ?l) = Inr (parentA, ?l)"
      using valid by (simp add: example_found)
    from reviewLeave_consensus [OF found example_request(1) example_request(2)
          example_request(3) len fence pend nf, where now = 7]
    obtain l' where
      "findLeaveById (snd (reviewLeave examplePlatform no_faults 7 ?req (exampleDb ?l)))
         (leave_id ?l) = Some l'"
      "rq_action ?req = ''reject'' \<longrightarrow> status l' = Rejected"
      "rq_action ?req = ''approve'' \<and> (\<exists>r. staffReview ?l = Some r \<and> r_status r = Approved)
            \<longrightarrow> status l' = Approved"
      "rq_action ?req = ''approve'' \<and>
         (\<forall>r. staffReview ?l = Some r \<longrightarrow> r_status r \<noteq> Approved)
            \<longrightarrow> status l' = Pending"
      by blast
    then show ?thesis
      unfolding example_leave example_request by (intro exI [of _ l']) simp
  qed
  have s1: "r_status staffOk = Approved" and s2: "r_status staffUndecided \<noteq> Approved"
    by (simp_all add: staffOk_def staffUndecided_def)
  from run [of "''approve''" "Some staffOk"] s1
  have a: "status (the (findLeaveById (snd (reviewLeave examplePlatform no_faults 7
      (exampleReview ''approve'' (point 0 0))
      (exampleDb (exampleLeave Pending (Some staffOk) (stored 180 0))))) leaveC)) = Approved"
    by auto
  from run [of "''approve''" "Some staffUndecided"] s2
  have b: "status (the (findLeaveById (snd (reviewLeave examplePlatform no_faults 7
      (exampleReview ''approve'' (point 0 0))
      (exampleDb (exampleLeave Pending (Some staffUndecided) (stored 180 0))))) leaveC)) =
      Pending"
    by auto
  from run [of "''approve''" None]
  have c: "status (the (findLeaveById (snd (reviewLeave examplePlatform no_faults 7
      (exampleReview ''approve'' (point 0 0))
      (exampleDb (exampleLeave Pending None (stored 180 0))))) leaveC)) = Pending"
    by auto
  from run [of "''reject''" "Some staffOk"]
  have d: "status (the (findLeaveById (snd (reviewLeave examplePlatform no_faults 7
      (exampleReview ''reject'' (point 0 0))
      (exampleDb (exampleLeave Pending (Some staffOk) (stored 180 0))))) leaveC)) = Rejected"
    by auto
  from a b c d show ?thesis by (intro conjI)
qed

lemma responses_distinct:
  "approval_not_allowed \<noteq> already_reviewed"
  "approval_not_allowed \<noteq> unauthorized"
  "approval_not_allowed \<noteq> invalid_action"
  "approval_not_allowed \<noteq> failed_to_review"
  "approval_not_allowed \<noteq> parent_not_found"
  "approval_not_allowed \<noteq> leave_not_found_or_unauthorized"
  "approval_not_allowed \<noteq> parent_location_invalid"
  "approval_not_allowed \<noteq> leave_location_invalid"
  "approval_not_allowed \<noteq> leave_coordinates_invalid"
  "approval_not_allowed \<noteq> reviewed_by_parent act l"
  "already_reviewed \<noteq> parent_location_invalid"
  "already_reviewed \<noteq> leave_location_invalid"
  "already_reviewed \<noteq> leave_coordinates_invalid"
  "already_reviewed \<noteq> approval_not_allowed"
  by (simp_all add: response_defs)

text \<open>
  C3. A parent approves a leave of a child; the current location sent and the stored
  location are both arrays of two elements, and the distance that \<open>calculateDistance\<close>
  computes from them on the platform compares as less than 5. Then the answer is the
  geofence refusal and the database is left as it was, whatever the status of the leave
  and of the staff review. A rejection is never answered with the geofence refusal, for
  any platform, request and database.
\<close>

theorem reviewLeave_geofence:
  "(findLeaveForParent fails req d = Inr (pid, l) \<and>
    rq_currentParentLocation req = JObject props \<and>
    map_of props ''coordinates'' = Some (JArray pc) \<and> length pc = 2 \<and>
    length (leaveLocation l) = 2 \<and>
    rq_action req = ''approve'' \<and>
    numberLess (calculateDistance pf pc (map JNumber (leaveLocation l))) (Fin 5)
    \<longrightarrow> reviewLeave pf fails now req d = (approval_not_allowed, d)) \<and>
   (\<forall>pf' fails' now' req' d'. rq_action req' = ''reject''
    \<longrightarrow> fst (reviewLeave pf' fails' now' req' d') \<noteq> approval_not_allowed)"
proof (intro conjI impI allI)
  assume h: "findLeaveForParent fails req d = Inr (pid, l) \<and>
    rq_currentParentLocation req = JObject props \<and>
    map_of props ''coordinates'' = Some (JArray pc) \<and> length pc = 2 \<and>
    length (leaveLocation l) = 2 \<and>
    rq_action req = ''approve'' \<and>
    numberLess (calculateDistance pf pc (map JNumber (leaveLocation l))) (Fin 5)"
  then have "locationChecks req l = Inr (pc, map JNumber (leaveLocation l))"
    using locationChecks_InrI [of req props pc l] by blast
  with h show "reviewLeave pf fails now req d = (approval_not_allowed, d)"
    by (simp add: reviewLeave_def reviewChecks_def restrictedRadius_def)
next
  fix pf' :: platform and fails' :: "io \<Rightarrow> bool" and now' :: nat
    and req' :: review_request and d' :: db
  assume rej: "rq_action req' = ''reject''"
  show "fst (reviewLeave pf' fails' now' req' d') \<noteq> approval_not_allowed"
  proof (cases "findLeaveForParent fails' req' d'")
    case (Inl r)
    with findLeaveForParent_InlD [OF Inl] show ?thesis
      using responses_distinct by (auto simp: reviewLeave_def reviewChecks_def)
  next
    case (Inr p)
    obtain pid' l' where p: "p = (pid', l')" by (cases p)
    show ?thesis
    proof (cases "locationChecks req' l'")
      case (Inl r)
      with locationChecks_InlD [OF Inl] show ?thesis
        using Inr p responses_distinct by (auto simp: reviewLeave_def reviewChecks_def)
    next
      case (Inr q)
      obtain pc' lc' where q: "q = (pc', lc')" by (cases q)
      show ?thesis
        using \<open>findLeaveForParent fails' req' d' = Inr p\<close> p Inr q rej
        by (auto simp: reviewLeave_def reviewChecks_def Let_def
            responses_distinct responses_distinct [symmetric])
    qed
  qed
qed

theorem reviewLeave_geofence_witness:
  "reviewLeave examplePlatform no_faults 7 (exampleReview ''approve'' (point 10 20))
     (exampleDb (exampleLeave Pending (Some staffOk) (stored 10 20))) =
   (approval_not_allowed, exampleDb (exampleLeave Pending (Some staffOk) (stored 10 20))) \<and>
   fst (reviewLeave examplePlatform no_faults 7 (exampleReview ''reject'' (point 10 20))
     (exampleDb (exampleLeave Pending (Some staffOk) (stored 10 20)))) \<noteq> approval_not_allowed"
proof -
  let ?l = "exampleLeave Pending (Some staffOk) (stored 10 20)"
  have f: "findLeaveForParent no_faults (exampleReview ''approve'' (point 10 20))
      (exampleDb ?l) = Inr (parentA, ?l)"
    by (simp add: example_found)
  have len: "length (leaveLocation ?l) = 2"
    by (simp add: example_leave)
  have near: "numberLess (calculateDistance examplePlatform [JNumber (Fin 10), JNumber (Fin 20)]
      (map JNumber (leaveLocation ?l))) (Fin 5)"
    using same_within [of 10 20] by (simp add: example_leave)
  have a: "rq_action (exampleReview ''approve'' (point 10 20)) = ''approve''"
    and r: "rq_action (exampleReview ''reject'' (point 10 20)) = ''reject''"
    by (simp_all add: exampleReview_def)
  note inst = reviewLeave_geofence [where fails = no_faults
      and req = "exampleReview ''approve'' (point 10 20)" and d = "exampleDb ?l"
      and pid = parentA and l = ?l and pc = "[JNumber (Fin 10), JNumber (Fin 20)]"
      and props = "[(''type'', JString ''Point''),
        (''coordinates'', JArray [JNumber (Fin 10), JNumber (Fin 20)])]"
      and pf = examplePlatform and now = 7]
  show ?thesis
    using inst f len near a r example_request(1) [of "''approve''" 10 20]
      example_request(2) [of 10 20] example_request(3) [of 10 20]
    by blast
qed

text \<open>
  C10. The location checks and the geofence come before the test of the status. For a
  leave that was found, whatever its status: when its stored location is absent or
  malformed (the stored coordinates are not an array of two numbers; an erased location
  is the empty array) the answer is a location validation error, namely "Leave location
  coordinates are missing or invalid" when the location sent is well formed, and never
  "Leave already reviewed"; and an approval whose computed distance compares as less
  than 5 is answered with the geofence refusal. In both cases nothing is written.
\<close>

theorem reviewLeave_checks_order:
  assumes "findLeaveForParent fails req d = Inr (pid, l)"
  shows "(length (leaveLocation l) \<noteq> 2 \<longrightarrow>
            fst (reviewLeave pf fails now req d) \<in>
              {parent_location_invalid, leave_coordinates_invalid} \<and>
            (rq_currentParentLocation req = JObject props \<and>
             map_of props ''coordinates'' = Some (JArray pc) \<and> length pc = 2 \<longrightarrow>
               fst (reviewLeave pf fails now req d) = leave_coordinates_invalid) \<and>
            fst (reviewLeave pf fails now req d) \<noteq> already_reviewed \<and>
            snd (reviewLeave pf fails now req d) = d) \<and>
         (rq_currentParentLocation req = JObject props \<and>
          map_of props ''coordinates'' = Some (JArray pc) \<and> length pc = 2 \<and>
          length (leaveLocation l) = 2 \<and> rq_action req = ''approve'' \<and>
          numberLess (calculateDistance pf pc (map JNumber (leaveLocation l))) (Fin 5) \<longrightarrow>
            reviewLeave pf fails now req d = (approval_not_allowed, d) \<and>
            approval_not_allowed \<noteq> already_reviewed)"
proof (intro conjI impI)
  assume bad: "length (leaveLocation l) \<noteq> 2"
  from locationChecks_stored_invalid(1) [OF bad, of req]
  obtain r where r: "locationChecks req l = Inl r"
    "r \<in> {parent_location_invalid, leave_coordinates_invalid}"
    by auto
  have run: "reviewLeave pf fails now req d = (r, d)"
    using assms r(1) by (simp add: reviewLeave_def reviewChecks_def)
  show "fst (reviewLeave pf fails now req d) \<in>
      {parent_location_invalid, leave_coordinates_invalid}"
    using run r(2) by simp
  show "fst (reviewLeave pf fails now req d) \<noteq> already_reviewed"
    using run r(2) responses_distinct by auto
  show "snd (reviewLeave pf fails now req d) = d"
    using run by simp
  assume "rq_currentParentLocation req = JObject props \<and>
     map_of props ''coordinates'' = Some (JArray pc) \<and> length pc = 2"
  then have "locationChecks req l = Inl leave_coordinates_invalid"
    using locationChecks_stored_invalid(2) [OF bad, of req props pc] by blast
  then show "fst (reviewLeave pf fails now req d) = leave_coordinates_invalid"
    using assms by (simp add: reviewLeave_def reviewChecks_def)
next
  assume h: "rq_currentParentLocation req = JObject props \<and>
      map_of props ''coordinates'' = Some (JArray pc) \<and> length pc = 2 \<and>
      length (leaveLocation l) = 2 \<and> rq_action req = ''approve'' \<and>
      numberLess (calculateDistance pf pc (map JNumber (leaveLocation l))) (Fin 5)"
  then have "locationChecks req l = Inr (pc, map JNumber (leaveLocation l))"
    using locationChecks_InrI [of req props pc l] by blast
  with h assms show "reviewLeave pf fails now req d = (approval_not_allowed, d)"
    by (simp add: reviewLeave_def reviewChecks_def restrictedRadius_def)
next
  show "approval_not_allowed \<noteq> already_reviewed"
    by (rule responses_distinct)
qed

theorem reviewLeave_checks_order_witness:
  "reviewLeave examplePlatform no_faults 7 (exampleReview ''reject'' (point 0 0))
     (exampleDb (exampleLeave Rejected (Some staffOk) erased)) =
   (leave_coordinates_invalid, exampleDb (exampleLeave Rejected (Some staffOk) erased)) \<and>
   reviewLeave examplePlatform no_faults 7 (exampleReview ''approve'' (point 10 20))
     (exampleDb (exampleLeave Approved (Some staffOk) (stored 10 20))) =
   (approval_not_allowed, exampleDb (exampleLeave Approved (Some staffOk) (stored 10 20)))"
proof
  let ?req = "exampleReview ''reject'' (point 0 0)"
  let ?l = "exampleLeave Rejected (Some staffOk) erased"
  have f: "findLeaveForParent no_faults ?req (exampleDb ?l) = Inr (parentA, ?l)"
    by (simp add: example_found)
  have bad: "length (leaveLocation ?l) \<noteq> 2"
    by (simp add: example_leave erased_def)
  note inst = reviewLeave_checks_order [OF f, where pf = examplePlatform and now = 7
      and pc = "[JNumber (Fin 0), JNumber (Fin 0)]"
      and props = "[(''type'', JString ''Point''),
        (''coordinates'', JArray [JNumber (Fin 0), JNumber (Fin 0)])]"]
  have "fst (reviewLeave examplePlatform no_faults 7 ?req (exampleDb ?l)) =
          leave_coordinates_invalid"
    and "snd (reviewLeave examplePlatform no_faults 7 ?req (exampleDb ?l)) = exampleDb ?l"
    using inst bad example_request(1) [of "''reject''" 0 0] example_request(2) [of 0 0]
      example_request(3) [of 0 0]
    by blast+
  then show "reviewLeave examplePlatform no_faults 7 ?req (exampleDb ?l) =
      (leave_coordinates_invalid, exampleDb ?l)"
    by (cases "reviewLeave examplePlatform no_faults 7 ?req (exampleDb ?l)") auto
next
  let ?req = "exampleReview ''approve'' (point 10 20)"
  let ?l = "exampleLeave Approved (Some staffOk) (stored 10 20)"
  have f: "findLeaveForParent no_faults ?req (exampleDb ?l) = Inr (parentA, ?l)"
    by (simp add: example_found)
  have len: "length (leaveLocation ?l) = 2"
    by (simp add: example_leave)
  have near: "numberLess (calculateDistance examplePlatform [JNumber (Fin 10), JNumber (Fin 20)]
      (map JNumber (leaveLocation ?l))) (Fin 5)"
    using same_within [of 10 20] by (simp add: example_leave)
  have a: "rq_action ?req = ''approve''"
    by (simp add: exampleReview_def)
  note inst = reviewLeave_checks_order [OF f, where pf = examplePlatform and now = 7
      and pc = "[JNumber (Fin 10), JNumber (Fin 20)]"
      and props = "[(''type'', JString ''Point''),
        (''coordinates'', JArray [JNumber (Fin 10), JNumber (Fin 20)])]"]
  show "reviewLeave examplePlatform no_faults 7 ?req (exampleDb ?l) =
      (approval_not_allowed, exampleDb ?l)"
    using inst len near a example_request(1) [of "''approve''" 10 20]
      example_request(2) [of 10 20] example_request(3) [of 10 20]
    by blast
qed

text \<open>
  C4 fails on the code. A parent rejects a leave; the handler erases the location.
  A second review of that leave, now rejected, is answered with "Leave location
  coordinates are missing or invalid" on every platform, not with "Leave already
  reviewed": the test of the status in lines 314 to 316 is never reached for a leave
  whose location the handler erased. Nothing is written.
\<close>

theorem reviewLeave_terminal_not_conflict:
  "status (exampleLeave Rejected (Some staffOk) erased) = Rejected \<and>
   reviewLeave pf no_faults 7 (exampleReview ''reject'' (point 0 0))
     (exampleDb (exampleLeave Rejected (Some staffOk) erased)) =
   (leave_coordinates_invalid, exampleDb (exampleLeave Rejected (Some staffOk) erased)) \<and>
   leave_coordinates_invalid \<noteq> already_reviewed"
  by (simp add: reviewLeave_def reviewChecks_def example_found locationChecks_def
      location_defs Let_def example_leave erased_def)
     (simp add: exampleReview_def point_def response_defs)

section \<open>Properties of the admin override\<close>

lemma updateFirst_find:
  "find P xs = Some x \<Longrightarrow> updateFirst P f xs = updateFirst P (\<lambda>z. f x) xs"
  by (induction xs) (auto split: if_splits)

lemma adminDecision_explicit:
  "adminDecision env staffBy parentBy act l =
     l\<lparr>status := (if act = ''approve'' then Approved else Rejected),
       staffReview :=
         Some \<lparr>r_status = (if act = ''approve'' then Approved else Rejected),
               r_remarks = ''Approved by admin'',
               reviewedBy = Some staffBy, reviewedAt = Some (staffReviewedAt env)\<rparr>,
       parentReview :=
         Some \<lparr>r_status = (if act = ''approve'' then Approved else Rejected),
               r_remarks = ''Approved by admin'',
               reviewedBy = Some parentBy, reviewedAt = Some (parentReviewedAt env)\<rparr>\<rparr>"
  by (simp add: adminDecision_def reviewStatus_def)

lemma leaveAdminApprove_run:
  assumes "ar_action req \<in> {''approve'', ''reject''}"
    and "castObjectId (ar_leaveId req) = Some lid"
    and "findLeaveById d lid = Some l"
    and "newObjectId (ar_user req) (generatedStaffId env) = Some staffBy"
    and "newObjectId (ar_user req) (generatedParentId env) = Some parentBy"
    and "\<not> fails FindLeaveById" and "\<not> fails UpdateLeave"
  shows "leaveAdminApprove fails env req d =
      (decided_by_admin (ar_action req) (adminDecision env staffBy parentBy (ar_action req) l),
       updateLeaveById lid (\<lambda>x. adminDecision env staffBy parentBy (ar_action req) l) d) \<and>
     findLeaveById
       (updateLeaveById lid (\<lambda>x. adminDecision env staffBy parentBy (ar_action req) l) d) lid =
       Some (adminDecision env staffBy parentBy (ar_action req) l)"
proof -
  let ?f = "adminDecision env staffBy parentBy (ar_action req)"
  have valid: "isValid (ar_leaveId req)"
    using assms(2) by (simp add: castObjectId_def split: if_splits)
  have found: "find (\<lambda>x. leave_id x = lid) (leaves d) = Some l"
    using assms(3) by (simp add: findLeaveById_def)
  have id: "leave_id (?f l) = lid"
    using find_SomeD [OF found] by (simp add: adminDecision_def)
  have upd: "updateLeaveById lid ?f d = updateLeaveById lid (\<lambda>x. ?f l) d"
    using updateFirst_find [OF found, of ?f] by (simp add: updateLeaveById_def)
  have after: "findLeaveById (updateLeaveById lid ?f d) lid = Some (?f l)"
    using find_updateFirst_same [OF found, of ?f] id
    by (simp add: findLeaveById_def updateLeaveById_def)
  show ?thesis
    using assms valid after upd by (simp add: leaveAdminApprove_def Let_def)
qed

text \<open>
  C5. For an action that is approve or reject, a leave id that casts and names a stored
  leave, and an authenticated admin, the override answers 200 and replaces the leave by
  one whose overall status, staff review status and parent review status are all the
  status that the action names, both reviews stamped with the admin's id and the remark
  "Approved by admin"; every other field, the location included, is as before. No
  location is looked at and the previous status is not tested. A leave id that casts
  but names no leave is answered 404, and an action that is neither approve nor reject,
  or a leave id that is not an ObjectId, is answered 400; none of these writes.
\<close>

theorem leaveAdminApprove_override:
  "(ar_action req \<in> {''approve'', ''reject''} \<and>
    castObjectId (ar_leaveId req) = Some lid \<and> findLeaveById d lid = Some l \<and>
    ar_user req = Some adminStr \<and> castObjectId adminStr = Some aid \<and>
    \<not> fails FindLeaveById \<and> \<not> fails UpdateLeave \<longrightarrow>
      (let decided = (if ar_action req = ''approve'' then Approved else Rejected);
           l' = l\<lparr>status := decided,
                  staffReview :=
                    Some \<lparr>r_status = decided, r_remarks = ''Approved by admin'',
                          reviewedBy = Some aid, reviewedAt = Some (staffReviewedAt env)\<rparr>,
                  parentReview :=
                    Some \<lparr>r_status = decided, r_remarks = ''Approved by admin'',
                          reviewedBy = Some aid, reviewedAt = Some (parentReviewedAt env)\<rparr>\<rparr>
       in leaveAdminApprove fails env req d =
            (decided_by_admin (ar_action req) l', updateLeaveById lid (\<lambda>x. l') d) \<and>
          findLeaveById (updateLeaveById lid (\<lambda>x. l') d) lid = Some l' \<and>
          code (decided_by_admin (ar_action req) l') = 200)) \<and>
   (ar_action req \<in> {''approve'', ''reject''} \<and>
    castObjectId (ar_leaveId req) = Some lid \<and> findLeaveById d lid = None \<and>
    \<not> fails FindLeaveById \<longrightarrow>
      leaveAdminApprove fails env req d = (leave_not_found, d) \<and> code leave_not_found = 404) \<and>
   (ar_action req \<notin> {''approve'', ''reject''} \<longrightarrow>
      leaveAdminApprove fails env req d = (invalid_action, d) \<and> code invalid_action = 400) \<and>
   (ar_action req \<in> {''approve'', ''reject''} \<and> castObjectId (ar_leaveId req) = None \<longrightarrow>
      leaveAdminApprove fails env req d = (invalid_leave_id, d) \<and> code invalid_leave_id = 400)"
proof (intro conjI impI)
  assume h: "ar_action req \<in> {''approve'', ''reject''} \<and>
    castObjectId (ar_leaveId req) = Some lid \<and> findLeaveById d lid = Some l \<and>
    ar_user req = Some adminStr \<and> castObjectId adminStr = Some aid \<and>
    \<not> fails FindLeaveById \<and> \<not> fails UpdateLeave"
  then have n: "newObjectId (ar_user req) (generatedStaffId env) = Some aid"
    "newObjectId (ar_user req) (generatedParentId env) = Some aid"
    by (simp_all add: newObjectId_def)
  from h leaveAdminApprove_run [OF _ _ _ n, of lid d l fails]
  show "let decided = (if ar_action req = ''approve'' then Approved else Rejected);
           l' = l\<lparr>status := decided,
                  staffReview :=
                    Some \<lparr>r_status = decided, r_remarks = ''Approved by admin'',
                          reviewedBy = Some aid, reviewedAt = Some (staffReviewedAt env)\<rparr>,
                  parentReview :=
                    Some \<lparr>r_status = decided, r_remarks = ''Approved by admin'',
                          reviewedBy = Some aid, reviewedAt = Some (parentReviewedAt env)\<rparr>\<rparr>
       in leaveAdminApprove fails env req d =
            (decided_by_admin (ar_action req) l', updateLeaveById lid (\<lambda>x. l') d) \<and>
          findLeaveById (updateLeaveById lid (\<lambda>x. l') d) lid = Some l' \<and>
          code (decided_by_admin (ar_action req) l') = 200"
    by (simp add: Let_def adminDecision_explicit decided_by_admin_def)
next
  assume "ar_action req \<in> {''approve'', ''reject''} \<and>
    castObjectId (ar_leaveId req) = Some lid \<and> findLeaveById d lid = None \<and>
    \<not> fails FindLeaveById"
  then show "leaveAdminApprove fails env req d = (leave_not_found, d)"
    by (auto simp add: leaveAdminApprove_def castObjectId_def split: if_splits)
next
  assume "ar_action req \<notin> {''approve'', ''reject''}"
  then show "leaveAdminApprove fails env req d = (invalid_action, d)"
    by (simp add: leaveAdminApprove_def)
next
  assume "ar_action req \<in> {''approve'', ''reject''} \<and> castObjectId (ar_leaveId req) = None"
  then show "leaveAdminApprove fails env req d = (invalid_leave_id, d)"
    by (auto simp add: leaveAdminApprove_def castObjectId_def split: if_splits)
qed (simp_all add: leave_not_found_def invalid_action_def invalid_leave_id_def reply_def)


lemma cast_examples:
  "castObjectId leaveC = Some leaveC" "castObjectId adminD = Some adminD"
  "castObjectId parentA = Some parentA" "castObjectId studentB = Some studentB"
  by (simp_all add: cast_defs example_defs)

lemma example_find_leave: "findLeaveById (exampleDb l) leaveC = (if leave_id l = leaveC then Some l else None)"
  by (simp add: findLeaveById_def exampleDb_def)

theorem leaveAdminApprove_override_witness:
  "leaveAdminApprove no_faults exampleEnv (exampleAdminRequest ''approve'')
     (exampleDb (exampleLeave Rejected (Some staffOk) erased)) =
   (decided_by_admin ''approve''
      \<lparr>leave_id = leaveC, studentId = studentB, status = Approved,
       parentReview = Some \<lparr>r_status = Approved, r_remarks = ''Approved by admin'',
                             reviewedBy = Some adminD, reviewedAt = Some 12\<rparr>,
       staffReview = Some \<lparr>r_status = Approved, r_remarks = ''Approved by admin'',
                            reviewedBy = Some adminD, reviewedAt = Some 11\<rparr>,
       leaveLocation = erased\<rparr>,
    exampleDb
      \<lparr>leave_id = leaveC, studentId = studentB, status = Approved,
       parentReview = Some \<lparr>r_status = Approved, r_remarks = ''Approved by admin'',
                             reviewedBy = Some adminD, reviewedAt = Some 12\<rparr>,
       staffReview = Some \<lparr>r_status = Approved, r_remarks = ''Approved by admin'',
                            reviewedBy = Some adminD, reviewedAt = Some 11\<rparr>,
       leaveLocation = erased\<rparr>) \<and>
   fst (leaveAdminApprove no_faults exampleEnv (exampleAdminRequest ''approve'')
     (exampleDb ((exampleLeave Pending None erased)\<lparr>leave_id := parentA\<rparr>))) =
     leave_not_found \<and>
   fst (leaveAdminApprove no_faults exampleEnv (exampleAdminRequest ''cancel'')
     (exampleDb (exampleLeave Pending None erased))) = invalid_action \<and>
   fst (leaveAdminApprove no_faults exampleEnv
     ((exampleAdminRequest ''reject'')\<lparr>ar_leaveId := ''42''\<rparr>)
     (exampleDb (exampleLeave Pending None erased))) = invalid_leave_id"
proof (intro conjI)
  let ?l = "exampleLeave Rejected (Some staffOk) erased"
  have h: "ar_action (exampleAdminRequest ''approve'') \<in> {''approve'', ''reject''} \<and>
    castObjectId (ar_leaveId (exampleAdminRequest ''approve'')) = Some leaveC \<and>
    findLeaveById (exampleDb ?l) leaveC = Some ?l \<and>
    ar_user (exampleAdminRequest ''approve'') = Some adminD \<and>
    castObjectId adminD = Some adminD \<and>
    \<not> no_faults FindLeaveById \<and> \<not> no_faults UpdateLeave"
    by (simp add: exampleAdminRequest_def cast_examples example_find_leave no_faults_def)
       (simp add: exampleLeave_def)
  show "leaveAdminApprove no_faults exampleEnv (exampleAdminRequest ''approve'')
     (exampleDb ?l) =
   (decided_by_admin ''approve''
      \<lparr>leave_id = leaveC, studentId = studentB, status = Approved,
       parentReview = Some \<lparr>r_status = Approved, r_remarks = ''Approved by admin'',
                             reviewedBy = Some adminD, reviewedAt = Some 12\<rparr>,
       staffReview = Some \<lparr>r_status = Approved, r_remarks = ''Approved by admin'',
                            reviewedBy = Some adminD, reviewedAt = Some 11\<rparr>,
       leaveLocation = erased\<rparr>,
    exampleDb
      \<lparr>leave_id = leaveC, studentId = studentB, status = Approved,
       parentReview = Some \<lparr>r_status = Approved, r_remarks = ''Approved by admin'',
                             reviewedBy = Some adminD, reviewedAt = Some 12\<rparr>,
       staffReview = Some \<lparr>r_status = Approved, r_remarks = ''Approved by admin'',
                            reviewedBy = Some adminD, reviewedAt = Some 11\<rparr>,
       leaveLocation = erased\<rparr>)"
    using leaveAdminApprove_override [of "exampleAdminRequest ''approve''" leaveC
        "exampleDb ?l" ?l adminD adminD no_faults exampleEnv] h
    by (simp add: Let_def exampleAdminRequest_def exampleEnv_def exampleLeave_def
        updateLeaveById_def exampleDb_def)
next
  let ?d = "exampleDb ((exampleLeave Pending None erased)\<lparr>leave_id := parentA\<rparr>)"
  have h: "ar_action (exampleAdminRequest ''approve'') \<in> {''approve'', ''reject''} \<and>
    castObjectId (ar_leaveId (exampleAdminRequest ''approve'')) = Some leaveC \<and>
    findLeaveById ?d leaveC = None \<and> \<not> no_faults FindLeaveById"
    by (simp add: exampleAdminRequest_def cast_examples example_find_leave no_faults_def)
       (simp add: example_defs)
  show "fst (leaveAdminApprove no_faults exampleEnv (exampleAdminRequest ''approve'') ?d) =
      leave_not_found"
    using leaveAdminApprove_override [of "exampleAdminRequest ''approve''" leaveC ?d _ _ _
        no_faults exampleEnv] h
    by (simp add: exampleAdminRequest_def)
next
  show "fst (leaveAdminApprove no_faults exampleEnv (exampleAdminRequest ''cancel'')
     (exampleDb (exampleLeave Pending None erased))) = invalid_action"
    using leaveAdminApprove_override [of "exampleAdminRequest ''cancel''" _
        "exampleDb (exampleLeave Pending None erased)" _ _ _ no_faults exampleEnv]
    by (simp add: exampleAdminRequest_def)
next
  let ?req = "(exampleAdminRequest ''reject'')\<lparr>ar_leaveId := ''42''\<rparr>"
  have h: "ar_action ?req \<in> {''approve'', ''reject''} \<and> castObjectId (ar_leaveId ?req) = None"
    by (simp add: exampleAdminRequest_def cast_defs)
  show "fst (leaveAdminApprove no_faults exampleEnv ?req
     (exampleDb (exampleLeave Pending None erased))) = invalid_leave_id"
    using leaveAdminApprove_override [of ?req _
        "exampleDb (exampleLeave Pending None erased)" _ _ _ no_faults exampleEnv] h
    by (simp add: exampleAdminRequest_def)
qed

text \<open>
  C1 fails on the admin override: a pending leave with its location, for which I1
  holds, is approved by the admin; the stored leave is then approved and still carries
  the location, so I1 no longer holds.
\<close>

theorem leaveAdminApprove_keeps_location:
  "I1 (exampleLeave Pending None (stored 77 28)) \<and>
   code (fst (leaveAdminApprove no_faults exampleEnv (exampleAdminRequest ''approve'')
     (exampleDb (exampleLeave Pending None (stored 77 28))))) = 200 \<and>
   map status (leaves (snd (leaveAdminApprove no_faults exampleEnv
     (exampleAdminRequest ''approve'')
     (exampleDb (exampleLeave Pending None (stored 77 28)))))) = [Approved] \<and>
   map leaveLocation (leaves (snd (leaveAdminApprove no_faults exampleEnv
     (exampleAdminRequest ''approve'')
     (exampleDb (exampleLeave Pending None (stored 77 28)))))) = [stored 77 28] \<and>
   map I1 (leaves (snd (leaveAdminApprove no_faults exampleEnv
     (exampleAdminRequest ''approve'')
     (exampleDb (exampleLeave Pending None (stored 77 28)))))) = [False]"
proof -
  let ?l = "exampleLeave Pending None (stored 77 28)"
  have run: "leaveAdminApprove no_faults exampleEnv (exampleAdminRequest ''approve'')
      (exampleDb ?l) =
    (decided_by_admin ''approve'' (adminDecision exampleEnv adminD adminD ''approve'' ?l),
     updateLeaveById leaveC (\<lambda>x. adminDecision exampleEnv adminD adminD ''approve'' ?l)
       (exampleDb ?l))"
    using leaveAdminApprove_run [of "exampleAdminRequest ''approve''" leaveC "exampleDb ?l" ?l
        exampleEnv adminD adminD no_faults]
    by (simp add: exampleAdminRequest_def cast_examples example_find_leave no_faults_def
        newObjectId_def)
       (simp add: exampleLeave_def)
  show ?thesis
    unfolding run
    by (simp add: I1_def locationPresent_def decided_by_admin_def updateLeaveById_def
        exampleDb_def adminDecision_def reviewStatus_def)
       (simp add: exampleLeave_def stored_def)
qed


section \<open>Properties of the assignment of a parent\<close>

lemma map_option_find_id:
  assumes "\<And>y. P y \<Longrightarrow> g y = y"
  shows "map_option g (find P xs) = find P xs"
  using assms by (induction xs) auto

lemma find_updateFirst_key:
  assumes "\<And>x. key (f x) = key x"
  shows "find (\<lambda>x. key x = k) (updateFirst (\<lambda>x. key x = j) f xs) =
         map_option (\<lambda>x. if key x = j then f x else x) (find (\<lambda>x. key x = k) xs)"
proof (induction xs)
  case Nil
  show ?case by simp
next
  case (Cons x xs)
  show ?case
  proof (cases "key x = j")
    case True
    show ?thesis
    proof (cases "key x = k")
      case True
      with \<open>key x = j\<close> assms show ?thesis by simp
    next
      case False
      with True have "k \<noteq> j" by auto
      then have "map_option (\<lambda>x. if key x = j then f x else x) (find (\<lambda>x. key x = k) xs) =
          find (\<lambda>x. key x = k) xs"
        by (intro map_option_find_id) auto
      with True False assms show ?thesis by simp
    qed
  next
    case False
    with Cons assms show ?thesis by simp
  qed
qed

lemma find_weaken:
  "find (\<lambda>x. key x = k \<and> Q x) xs = Some u \<Longrightarrow>
   \<exists>u0. find (\<lambda>x. key x = k) xs = Some u0 \<and> key u0 = k"
  by (induction xs) (auto split: if_splits)

lemma findUserById_bothWrites:
  "findUserById (bothWrites sid pid d) k =
     map_option (\<lambda>u. if user_id u = pid then addToSetChildren sid u else u)
       (map_option (\<lambda>u. if user_id u = sid then setParent pid u else u) (findUserById d k))"
proof -
  have a: "user_id (addToSetChildren sid u) = user_id u" for u
    by (simp add: addToSetChildren_def)
  have b: "user_id (setParent pid u) = user_id u" for u
    by (simp add: setParent_def)
  show ?thesis
    unfolding findUserById_def bothWrites_def updateUserById_def
    by (simp add: find_updateFirst_key [where key = user_id, OF a]
        find_updateFirst_key [where key = user_id, OF b])
qed

lemma bothWrites_visible:
  assumes "findUserByRole d sid Student = Some st" and "findUserByRole d pid Parent = Some pa"
  shows "(\<exists>st'. findUserById (bothWrites sid pid d) sid = Some st' \<and> parentId st' = Some pid) \<and>
         (\<exists>pa'. findUserById (bothWrites sid pid d) pid = Some pa' \<and> sid \<in> set (children pa'))"
proof -
  from assms(1) obtain s0 where s0: "findUserById d sid = Some s0" "user_id s0 = sid"
    unfolding findUserByRole_def findUserById_def
    using find_weaken [where key = user_id and Q = "\<lambda>u. role u = Student"] by blast
  from assms(2) obtain p0 where p0: "findUserById d pid = Some p0" "user_id p0 = pid"
    unfolding findUserByRole_def findUserById_def
    using find_weaken [where key = user_id and Q = "\<lambda>u. role u = Parent"] by blast
  show ?thesis
    using s0 p0
    by (auto simp: findUserById_bothWrites setParent_def addToSetChildren_def)
qed

lemma assignParentToStudent_cases:
  "snd (assignParentToStudent fails req d) = d \<or>
   (assignable req d \<and> \<not> fails WriteStudent \<and> \<not> fails WriteParent \<and> \<not> fails Commit \<and>
    snd (assignParentToStudent fails req d) =
      bothWrites (the (castObjectId (the (as_studentId req))))
        (the (castObjectId (the (as_parentId req)))) d)"
  by (auto simp: assignParentToStudent_def assignable_def bothWrites_def Let_def
      split: option.splits if_splits prod.splits)

lemma assignParentToStudent_success:
  assumes "assignable req d"
    and "\<not> fails FindStudent" "\<not> fails FindParentUser"
    and "\<not> fails WriteStudent" "\<not> fails WriteParent" "\<not> fails Commit"
  shows "snd (assignParentToStudent fails req d) =
      bothWrites (the (castObjectId (the (as_studentId req))))
        (the (castObjectId (the (as_parentId req)))) d \<and>
    (fails FetchUpdated \<or>
     map_option code (fst (assignParentToStudent fails req d)) = Some 200)"
  using assms
  by (auto simp: assignParentToStudent_def assignable_def bothWrites_def Let_def assigned_def
      split: option.splits if_splits prod.splits)

lemma assignable_found:
  assumes "assignable req d"
  shows "\<exists>st pa. findUserByRole d (the (castObjectId (the (as_studentId req)))) Student = Some st \<and>
      findUserByRole d (the (castObjectId (the (as_parentId req)))) Parent = Some pa"
  using assms by (auto simp: assignable_def split: option.splits prod.splits)


text \<open>
  C6. The assignment is all-or-nothing. When a precondition fails (an id missing or not
  an ObjectId, no student or no parent with that id and role, a student who already has
  a parent) the database is unchanged, and so it is when the first or the second write
  fails. Whenever the database does change, it is by both writes
  together: the student's \<open>parentId\<close> is the parent and the student's id is among the
  parent's \<open>children\<close>. When the preconditions hold and no call fails, that is what
  happens.
\<close>

theorem assignParentToStudent_all_or_nothing:
  "(\<not> assignable req d \<longrightarrow> snd (assignParentToStudent fails req d) = d) \<and>
   (fails WriteStudent \<or> fails WriteParent \<longrightarrow>
      snd (assignParentToStudent fails req d) = d) \<and>
   ((snd (assignParentToStudent fails req d) \<noteq> d \<or>
     (assignable req d \<and> \<not> fails FindStudent \<and> \<not> fails FindParentUser \<and>
      \<not> fails WriteStudent \<and> \<not> fails WriteParent \<and> \<not> fails Commit)) \<longrightarrow>
    (\<exists>sidStr pidStr sid pid.
       as_studentId req = Some sidStr \<and> castObjectId sidStr = Some sid \<and>
       as_parentId req = Some pidStr \<and> castObjectId pidStr = Some pid \<and>
       snd (assignParentToStudent fails req d) = bothWrites sid pid d \<and>
       (\<exists>st'. findUserById (snd (assignParentToStudent fails req d)) sid = Some st' \<and>
              parentId st' = Some pid) \<and>
       (\<exists>pa'. findUserById (snd (assignParentToStudent fails req d)) pid = Some pa' \<and>
              sid \<in> set (children pa'))))"
proof (intro conjI impI)
  assume "\<not> assignable req d"
  then show "snd (assignParentToStudent fails req d) = d"
    using assignParentToStudent_cases [of fails req d] by blast
next
  assume "fails WriteStudent \<or> fails WriteParent"
  then show "snd (assignParentToStudent fails req d) = d"
    using assignParentToStudent_cases [of fails req d] by blast
next
  let ?sid = "the (castObjectId (the (as_studentId req)))"
  let ?pid = "the (castObjectId (the (as_parentId req)))"
  assume "snd (assignParentToStudent fails req d) \<noteq> d \<or>
     (assignable req d \<and> \<not> fails FindStudent \<and> \<not> fails FindParentUser \<and>
      \<not> fails WriteStudent \<and> \<not> fails WriteParent \<and> \<not> fails Commit)"
  then have ok: "assignable req d"
    and run: "snd (assignParentToStudent fails req d) = bothWrites ?sid ?pid d"
    using assignParentToStudent_cases [of fails req d]
      assignParentToStudent_success [of req d fails]
    by blast+
  from ok obtain sidStr pidStr sid pid where
    ids: "as_studentId req = Some sidStr" "castObjectId sidStr = Some sid"
      "as_parentId req = Some pidStr" "castObjectId pidStr = Some pid"
    by (auto simp: assignable_def falsy_def split: option.splits prod.splits)
  from assignable_found [OF ok] ids obtain st pa where
    "findUserByRole d sid Student = Some st" "findUserByRole d pid Parent = Some pa"
    by auto
  from bothWrites_visible [OF this] run ids
  show "\<exists>sidStr pidStr sid pid.
       as_studentId req = Some sidStr \<and> castObjectId sidStr = Some sid \<and>
       as_parentId req = Some pidStr \<and> castObjectId pidStr = Some pid \<and>
       snd (assignParentToStudent fails req d) = bothWrites sid pid d \<and>
       (\<exists>st'. findUserById (snd (assignParentToStudent fails req d)) sid = Some st' \<and>
              parentId st' = Some pid) \<and>
       (\<exists>pa'. findUserById (snd (assignParentToStudent fails req d)) pid = Some pa' \<and>
              sid \<in> set (children pa'))"
    by simp
qed

lemma example_assignable:
  "assignable exampleAssign unlinkedDb" "\<not> assignable exampleAssign (exampleDb l)"
  by (simp_all add: assignable_def exampleAssign_def falsy_def cast_examples
      findUserByRole_def unlinkedDb_def exampleDb_def)
     (simp_all add: parentA_def studentB_def)

theorem assignParentToStudent_all_or_nothing_witness:
  "snd (assignParentToStudent no_faults exampleAssign unlinkedDb) =
     \<lparr>users = [\<lparr>user_id = parentA, role = Parent, parentId = None, children = [studentB]\<rparr>,
               \<lparr>user_id = studentB, role = Student, parentId = Some parentA, children = []\<rparr>],
      leaves = [], complaints = []\<rparr> \<and>
   snd (assignParentToStudent secondWriteFails exampleAssign unlinkedDb) = unlinkedDb \<and>
   snd (assignParentToStudent no_faults exampleAssign (exampleDb (exampleLeave Pending None erased))) =
     exampleDb (exampleLeave Pending None erased)"
proof (intro conjI)
  have "assignable exampleAssign unlinkedDb \<and> \<not> no_faults FindStudent \<and>
      \<not> no_faults FindParentUser \<and> \<not> no_faults WriteStudent \<and> \<not> no_faults WriteParent \<and>
      \<not> no_faults Commit"
    by (simp add: example_assignable no_faults_def)
  with assignParentToStudent_all_or_nothing [of exampleAssign unlinkedDb no_faults]
  have "\<exists>sidStr pidStr sid pid.
       as_studentId exampleAssign = Some sidStr \<and> castObjectId sidStr = Some sid \<and>
       as_parentId exampleAssign = Some pidStr \<and> castObjectId pidStr = Some pid \<and>
       snd (assignParentToStudent no_faults exampleAssign unlinkedDb) = bothWrites sid pid unlinkedDb"
    by blast
  then have "snd (assignParentToStudent no_faults exampleAssign unlinkedDb) =
      bothWrites studentB parentA unlinkedDb"
    by (auto simp: exampleAssign_def cast_examples)
  then show "snd (assignParentToStudent no_faults exampleAssign unlinkedDb) =
     \<lparr>users = [\<lparr>user_id = parentA, role = Parent, parentId = None, children = [studentB]\<rparr>,
               \<lparr>user_id = studentB, role = Student, parentId = Some parentA, children = []\<rparr>],
      leaves = [], complaints = []\<rparr>"
    by (simp add: bothWrites_def updateUserById_def unlinkedDb_def setParent_def
        addToSetChildren_def)
       (simp add: parentA_def studentB_def)
next
  show "snd (assignParentToStudent secondWriteFails exampleAssign unlinkedDb) = unlinkedDb"
    using assignParentToStudent_all_or_nothing [of exampleAssign unlinkedDb secondWriteFails]
    by (simp add: secondWriteFails_def)
next
  show "snd (assignParentToStudent no_faults exampleAssign
          (exampleDb (exampleLeave Pending None erased))) =
     exampleDb (exampleLeave Pending None erased)"
    using assignParentToStudent_all_or_nothing [of exampleAssign
        "exampleDb (exampleLeave Pending None erased)" no_faults]
      example_assignable(2)
    by blast
qed



section \<open>Properties of the deletion of a student\<close>

lemma find_removeFirst_distinct:
  "distinct (map key xs) \<Longrightarrow>
   find (\<lambda>x. key x = k) (removeFirst (\<lambda>x. key x = k) xs) = None"
proof (induction xs)
  case Nil
  show ?case by simp
next
  case (Cons x xs)
  show ?case
  proof (cases "key x = k")
    case True
    from Cons.prems have "key x \<notin> key ` set xs" by simp
    with True have "\<forall>y \<in> set xs. key y \<noteq> k" by blast
    with True show ?thesis by (simp add: find_None_iff)
  next
    case False
    with Cons show ?thesis by simp
  qed
qed

lemma deleteManyComplaints_twice:
  assumes "ownerPath cfg = ''student'' \<or> ownerPath cfg = ''studentId''"
  shows "\<forall>c \<in> set (complaints (deleteManyComplaints cfg ''studentId'' sid
            (deleteManyLeaves sid (deleteManyComplaints cfg ''student'' sid d')))).
           owner c \<noteq> sid \<and> c \<in> set (complaints d')"
  using assms
  by (auto simp: deleteManyComplaints_def deleteManyLeaves_def complaintMatches_def
      split: if_splits)

lemma deleteStudent_run:
  assumes "castObjectId idStr = Some sid" and "findUserByRole d sid Student = Some st"
    and "\<not> fails FindStudent" "\<not> fails DeleteLeaves" "\<not> fails DeleteComplaints"
      "\<not> fails HookDeleteLeaves" "\<not> fails HookDeleteComplaints" "\<not> fails DeleteUser"
  shows "deleteStudent fails cfg idStr d =
     (student_deleted,
      deleteUserById sid
        (deleteManyComplaints cfg ''studentId'' sid
          (deleteManyLeaves sid
            (deleteManyComplaints cfg ''student'' sid (deleteManyLeaves sid d)))))"
proof -
  have "user_id st = sid"
    using assms(2) by (auto simp: findUserByRole_def dest: find_SomeD)
  with assms show ?thesis
    by (simp add: deleteStudent_def documentDeleteOne_def Let_def)
qed

text \<open>
  C7. For a student that exists, when no storage call fails, \<open>deleteStudent\<close> answers
  200; afterwards the leaves are those of the other students, no leave and no complaint
  refers to the student, and the student is gone. The complaints of the student are
  removed by the controller's \<open>deleteMany\<close> (path \<open>student\<close>) or by the hook's (path
  \<open>studentId\<close>), whichever of the two names the schema's path; ids are unique in the
  users collection.
\<close>

theorem deleteStudent_cascade:
  assumes "ownerPath cfg = ''student'' \<or> ownerPath cfg = ''studentId''"
    and "castObjectId idStr = Some sid" and "findUserByRole d sid Student = Some st"
    and "distinct (map user_id (users d))"
    and "\<not> fails FindStudent" "\<not> fails DeleteLeaves" "\<not> fails DeleteComplaints"
      "\<not> fails HookDeleteLeaves" "\<not> fails HookDeleteComplaints" "\<not> fails DeleteUser"
  shows "fst (deleteStudent fails cfg idStr d) = student_deleted \<and>
    leaves (snd (deleteStudent fails cfg idStr d)) =
      filter (\<lambda>l. studentId l \<noteq> sid) (leaves d) \<and>
    filter (\<lambda>l. studentId l = sid) (leaves (snd (deleteStudent fails cfg idStr d))) = [] \<and>
    filter (\<lambda>c. owner c = sid) (complaints (snd (deleteStudent fails cfg idStr d))) = [] \<and>
    set (complaints (snd (deleteStudent fails cfg idStr d))) \<subseteq> set (complaints d) \<and>
    findUserById (snd (deleteStudent fails cfg idStr d)) sid = None"
proof -
  note run = deleteStudent_run [OF assms(2,3,5-10), of cfg]
  have c: "\<forall>c \<in> set (complaints (snd (deleteStudent fails cfg idStr d))).
      owner c \<noteq> sid \<and> c \<in> set (complaints d)"
    using deleteManyComplaints_twice [OF assms(1), of sid "deleteManyLeaves sid d"]
    unfolding run by (simp add: deleteUserById_def deleteManyLeaves_def)
  have u: "findUserById (snd (deleteStudent fails cfg idStr d)) sid = None"
    unfolding run
    using find_removeFirst_distinct [OF assms(4), of sid]
    by (simp add: findUserById_def deleteUserById_def deleteManyComplaints_def
        deleteManyLeaves_def)
  have l: "leaves (snd (deleteStudent fails cfg idStr d)) =
      filter (\<lambda>l. studentId l \<noteq> sid) (leaves d)"
    unfolding run
    by (simp add: deleteUserById_def deleteManyComplaints_def deleteManyLeaves_def)
  have l0: "filter (\<lambda>l. studentId l = sid) (leaves (snd (deleteStudent fails cfg idStr d))) = []"
    unfolding l by (simp add: filter_empty_conv)
  have c0: "filter (\<lambda>c. owner c = sid) (complaints (snd (deleteStudent fails cfg idStr d))) = []"
    using c by (simp add: filter_empty_conv)
  show ?thesis
    using run c u l l0 c0 by auto
qed

theorem deleteStudent_cascade_witness:
  "deleteStudent no_faults exampleSchema studentB
     (exampleDb (exampleLeave Approved (Some staffOk) erased)) =
   (student_deleted,
    \<lparr>users = [\<lparr>user_id = parentA, role = Parent, parentId = None, children = [studentB]\<rparr>],
     leaves = [], complaints = []\<rparr>)"
proof -
  let ?d = "exampleDb (exampleLeave Approved (Some staffOk) erased)"
  have p: "ownerPath exampleSchema = ''student'' \<or> ownerPath exampleSchema = ''studentId''"
    by (simp add: exampleSchema_def)
  have f: "findUserByRole ?d studentB Student =
      Some \<lparr>user_id = studentB, role = Student, parentId = Some parentA, children = []\<rparr>"
    by (simp add: findUserByRole_def exampleDb_def)
  have dist: "distinct (map user_id (users ?d))"
    by (simp add: exampleDb_def parentA_def studentB_def)
  have nf: "\<not> no_faults FindStudent" "\<not> no_faults DeleteLeaves" "\<not> no_faults DeleteComplaints"
    "\<not> no_faults HookDeleteLeaves" "\<not> no_faults HookDeleteComplaints" "\<not> no_faults DeleteUser"
    by (simp_all add: no_faults_def)
  from deleteStudent_cascade [OF p cast_examples(4) f dist nf]
  have r: "fst (deleteStudent no_faults exampleSchema studentB ?d) = student_deleted"
    and l: "leaves (snd (deleteStudent no_faults exampleSchema studentB ?d)) =
      filter (\<lambda>l. studentId l \<noteq> studentB) (leaves ?d)"
    and c: "filter (\<lambda>c. owner c = studentB)
      (complaints (snd (deleteStudent no_faults exampleSchema studentB ?d))) = []"
    and u: "findUserById (snd (deleteStudent no_faults exampleSchema studentB ?d)) studentB = None"
    by blast+
  have run: "snd (deleteStudent no_faults exampleSchema studentB ?d) =
    \<lparr>users = [\<lparr>user_id = parentA, role = Parent, parentId = None, children = [studentB]\<rparr>],
     leaves = [], complaints = []\<rparr>"
    by (simp add: deleteStudent_def documentDeleteOne_def cast_examples f no_faults_def Let_def)
       (simp add: deleteUserById_def deleteManyComplaints_def deleteManyLeaves_def
         complaintMatches_def exampleSchema_def exampleDb_def exampleLeave_def
         parentA_def studentB_def)
  show ?thesis
    using r run by (cases "deleteStudent no_faults exampleSchema studentB ?d") simp
qed

end
